theory Spec2Isabelle
  imports Complex_Main "HOL-Library.Word"
begin

section \<open>The ALVAR marker-detector wrappers (versions 1.3 and 1.5)\<close>

text \<open>
  Both wrappers are a flat set of C entry points over process-wide globals. The globals
  become one record, passed in and returned by every entry point. The ALVAR and OpenCV
  classes the wrapper calls (\<^verbatim>\<open>Camera\<close>, \<^verbatim>\<open>MarkerDetector\<close>, \<^verbatim>\<open>MultiMarker\<close>,
  \<^verbatim>\<open>ProjPoints\<close>, \<^verbatim>\<open>Pose\<close>, \<^verbatim>\<open>BuildHideTexture\<close>, \<^verbatim>\<open>cvCreateImage\<close>) are not part of
  the wrapper: each method is a field of the record \<open>engine\<close>, a parameter of every
  definition, and the objects themselves are type variables. A method that mutates its
  receiver returns the new receiver; the camera and the frame are read by the detector
  and bundle methods and are not returned by them. The file system that \<^verbatim>\<open>SetCalib\<close>,
  \<^verbatim>\<open>Load\<close> and \<^verbatim>\<open>SaveCalib\<close> touch is the component \<open>files\<close> of the state.

  C \<^verbatim>\<open>int\<close> values are \<open>int\<close>; the wrapper does no arithmetic on marker ids, and the
  two \<^verbatim>\<open>int\<close> products of the frame header wrap to 32 bits. Counters over vectors are
  \<open>nat\<close>. The two \<^verbatim>\<open>unsigned int\<close> globals are 32-bit words, so the product that
  computes \<^verbatim>\<open>hide_texture_size\<close> wraps as in C. The counters of the pixel loops are
  \<open>nat\<close> as well; the statements about the pixel loops assume
  \<open>texture_indices_in_range\<close>, the range in which the \<^verbatim>\<open>int\<close> counters of the source
  neither wrap nor turn negative. \<^verbatim>\<open>double\<close> values are only passed through (and
  negated once), and are \<open>real\<close>. A caller-owned output array is a function from the
  offset to the element stored there; the wrapper never checks a capacity.
\<close>

type_synonym byte = "8 word"

datatype FILE_FORMAT = FILE_FORMAT_DEFAULT | FILE_FORMAT_XML

datatype fault = NullPointer | OutOfRange

text \<open>
  \<^verbatim>\<open>IplImage\<close>, with the fields the wrapper assigns. Pointer fields other than the
  pixel data hold \<open>None\<close> for \<^verbatim>\<open>NULL\<close>; \<open>imageData\<close> is the memory at the pixel pointer.
\<close>

record IplImage =
  nSize :: int
  ID :: int
  nChannels :: int
  alphaChannel :: int
  depth :: int
  colorModel :: string
  channelSeq :: string
  dataOrder :: int
  origin :: int
  align :: int
  width :: int
  height :: int
  roi :: "nat option"
  maskROI :: "nat option"
  imageId :: "nat option"
  tileInfo :: "nat option"
  imageSize :: int
  imageData :: "nat \<Rightarrow> byte"
  widthStep :: int
  imageDataOrigin :: "nat option"

text \<open>
  The vision engine. \<open>sizeof_IplImage\<close> and \<open>IPL_DEPTH_8U\<close> are the two constants of
  the OpenCV headers that the wrapper stores in the frame header.
\<close>

record ('cam, 'det, 'mk, 'pose, 'mm, 'pp, 'fs) engine =
  sizeof_IplImage :: int
  IPL_DEPTH_8U :: int
  Camera_SetCalib :: "string \<Rightarrow> int \<Rightarrow> int \<Rightarrow> 'fs \<Rightarrow> 'cam \<Rightarrow> bool \<times> 'cam"
  Camera_SetRes :: "int \<Rightarrow> int \<Rightarrow> 'cam \<Rightarrow> 'cam"
  Camera_Calibrate :: "'pp \<Rightarrow> 'cam \<Rightarrow> 'cam"
  Camera_SaveCalib :: "string \<Rightarrow> 'cam \<Rightarrow> 'fs \<Rightarrow> bool \<times> 'fs"
  Detector_SetMarkerSize :: "real \<Rightarrow> int \<Rightarrow> real \<Rightarrow> 'det \<Rightarrow> 'det"
  Detector_SetMarkerSizeForId :: "int \<Rightarrow> real \<Rightarrow> 'det \<Rightarrow> 'det"
  Detector_Detect :: "IplImage \<Rightarrow> 'cam \<Rightarrow> bool \<Rightarrow> bool \<Rightarrow> real \<Rightarrow> real \<Rightarrow> 'det \<Rightarrow> 'det"
  Detector_DetectAdditional :: "IplImage \<Rightarrow> 'cam \<Rightarrow> bool \<Rightarrow> real \<Rightarrow> 'det \<Rightarrow> 'det"
  Detector_markers :: "'det \<Rightarrow> 'mk list"
  Marker_GetId :: "'mk \<Rightarrow> int"
  Marker_pose :: "'mk \<Rightarrow> 'pose"
  Pose_new :: "'pose"
  Pose_GetMatrixGL :: "'pose \<Rightarrow> nat \<Rightarrow> real"
  MultiMarker_new :: "int list \<Rightarrow> 'mm"
  MultiMarker_Load :: "string \<Rightarrow> FILE_FORMAT \<Rightarrow> 'fs \<Rightarrow> 'mm \<Rightarrow> bool \<times> 'mm"
  MultiMarker_Update :: "'mk list \<Rightarrow> 'cam \<Rightarrow> 'pose \<Rightarrow> 'mm \<Rightarrow> real \<times> 'pose \<times> 'mm"
  MultiMarker_SetTrackMarkers :: "'det \<Rightarrow> 'cam \<Rightarrow> 'pose \<Rightarrow> 'mm \<Rightarrow> 'det \<times> 'pose \<times> 'mm"
  ProjPoints_AddPointsUsingChessboard ::
    "IplImage \<Rightarrow> real \<Rightarrow> int \<Rightarrow> int \<Rightarrow> bool \<Rightarrow> 'pp \<Rightarrow> bool \<times> 'pp"
  ProjPoints_Reset :: "'pp \<Rightarrow> 'pp"
  cvCreateImage :: "32 word \<Rightarrow> 32 word \<Rightarrow> 32 word \<Rightarrow> IplImage option"
  BuildHideTexture ::
    "IplImage \<Rightarrow> IplImage \<Rightarrow> 'cam \<Rightarrow> (nat \<Rightarrow> real) \<Rightarrow> real \<times> real \<Rightarrow> real \<times> real \<Rightarrow> IplImage"

subsection \<open>The globals\<close>

text \<open>
  The globals of version 1.3 (the iterator \<^verbatim>\<open>foundPtr\<close> is a scratch variable of
  \<^verbatim>\<open>alvar_detect_marker\<close> and is local to the loop in the model). Version 1.5 has the
  same globals and more, so its state extends the record; an entry point whose code is
  the same in both versions is defined once, on every extension of the record.
\<close>

record ('cam, 'det, 'mm, 'fs) wrapper_state =
  cam :: 'cam
  cam_width :: int
  cam_height :: int
  markerDetector :: 'det
  multiMarkers :: "'mm list"
  image_g :: IplImage
  hide_texture :: "IplImage option"
  hide_texture_size :: "32 word"
  channels :: "32 word"
  margin :: real
  idTable :: "int \<rightharpoonup> nat"
  foundMarkers :: "nat list"
  detect_additional :: bool
  curMaxTrackError :: real
  files :: 'fs

record ('cam, 'det, 'mm, 'fs, 'pp) wrapper15_state = "('cam, 'det, 'mm, 'fs) wrapper_state" +
  markerDetector2 :: 'det
  detector_id :: int
  pp :: 'pp
  calibration_started :: bool
  bundle_initialized :: bool

subsection \<open>Camera and configuration entry points\<close>

text \<open>
  \<^verbatim>\<open>alvar_init_camera\<close> of version 1.3. A \<^verbatim>\<open>NULL\<close> file name is \<open>None\<close>; \<^verbatim>\<open>&&\<close> does
  not call \<^verbatim>\<open>SetCalib\<close> then. When \<^verbatim>\<open>SetCalib\<close> is called and fails, \<^verbatim>\<open>SetRes\<close> works
  on the camera as the failed call left it.
\<close>

definition alvar_init_camera13 ::
  "('cam, 'det, 'mk, 'pose, 'mm, 'pp, 'fs) engine \<Rightarrow> string option \<Rightarrow> int \<Rightarrow> int \<Rightarrow>
   ('cam, 'det, 'mm, 'fs, 'z) wrapper_state_scheme \<Rightarrow>
   int \<times> ('cam, 'det, 'mm, 'fs, 'z) wrapper_state_scheme" where
  "alvar_init_camera13 E calibFile w h s =
     (let (ret, c) =
            (case calibFile of
               None \<Rightarrow> (-1, Camera_SetRes E w h (cam s))
             | Some f \<Rightarrow>
                 (case Camera_SetCalib E f w h (files s) (cam s) of
                    (True, c') \<Rightarrow> (0, c')
                  | (False, c') \<Rightarrow> (-1, Camera_SetRes E w h c')))
      in (ret, s\<lparr>cam := c, cam_width := w, cam_height := h, detect_additional := False\<rparr>))"

text \<open>Version 1.5 also resets the detector selection and the two session flags.\<close>

definition alvar_init_camera15 ::
  "('cam, 'det, 'mk, 'pose, 'mm, 'pp, 'fs) engine \<Rightarrow> string option \<Rightarrow> int \<Rightarrow> int \<Rightarrow>
   ('cam, 'det, 'mm, 'fs, 'pp) wrapper15_state \<Rightarrow>
   int \<times> ('cam, 'det, 'mm, 'fs, 'pp) wrapper15_state" where
  "alvar_init_camera15 E calibFile w h s =
     (let (ret, c) =
            (case calibFile of
               None \<Rightarrow> (-1, Camera_SetRes E w h (cam s))
             | Some f \<Rightarrow>
                 (case Camera_SetCalib E f w h (files s) (cam s) of
                    (True, c') \<Rightarrow> (0, c')
                  | (False, c') \<Rightarrow> (-1, Camera_SetRes E w h c')))
      in (ret, s\<lparr>cam := c, cam_width := w, cam_height := h, detector_id := 0,
                 detect_additional := False, bundle_initialized := False,
                 calibration_started := False\<rparr>))"

definition alvar_init_marker_detector13 ::
  "('cam, 'det, 'mk, 'pose, 'mm, 'pp, 'fs) engine \<Rightarrow> real \<Rightarrow> int \<Rightarrow> real \<Rightarrow>
   ('cam, 'det, 'mm, 'fs, 'z) wrapper_state_scheme \<Rightarrow>
   ('cam, 'det, 'mm, 'fs, 'z) wrapper_state_scheme" where
  "alvar_init_marker_detector13 E markerSize markerRes mrg s =
     s\<lparr>markerDetector := Detector_SetMarkerSize E markerSize markerRes mrg (markerDetector s)\<rparr>"

definition alvar_init_marker_detector15 ::
  "('cam, 'det, 'mk, 'pose, 'mm, 'pp, 'fs) engine \<Rightarrow> real \<Rightarrow> int \<Rightarrow> real \<Rightarrow>
   ('cam, 'det, 'mm, 'fs, 'pp) wrapper15_state \<Rightarrow>
   ('cam, 'det, 'mm, 'fs, 'pp) wrapper15_state" where
  "alvar_init_marker_detector15 E markerSize markerRes mrg s =
     s\<lparr>markerDetector := Detector_SetMarkerSize E markerSize markerRes mrg (markerDetector s),
       markerDetector2 := Detector_SetMarkerSize E markerSize markerRes mrg (markerDetector2 s)\<rparr>"

definition alvar_set_detect_additional ::
  "bool \<Rightarrow> ('cam, 'det, 'mm, 'fs, 'z) wrapper_state_scheme \<Rightarrow>
   ('cam, 'det, 'mm, 'fs, 'z) wrapper_state_scheme" where
  "alvar_set_detect_additional enable s = s\<lparr>detect_additional := enable\<rparr>"

definition alvar_set_marker_size ::
  "('cam, 'det, 'mk, 'pose, 'mm, 'pp, 'fs) engine \<Rightarrow> int \<Rightarrow> real \<Rightarrow>
   ('cam, 'det, 'mm, 'fs, 'z) wrapper_state_scheme \<Rightarrow>
   ('cam, 'det, 'mm, 'fs, 'z) wrapper_state_scheme" where
  "alvar_set_marker_size E i markerSize s =
     s\<lparr>markerDetector := Detector_SetMarkerSizeForId E i markerSize (markerDetector s)\<rparr>"

definition alvar_set_hide_texture_configuration ::
  "('cam, 'det, 'mk, 'pose, 'mm, 'pp, 'fs) engine \<Rightarrow> 32 word \<Rightarrow> 32 word \<Rightarrow> 32 word \<Rightarrow> real \<Rightarrow>
   ('cam, 'det, 'mm, 'fs, 'z) wrapper_state_scheme \<Rightarrow>
   ('cam, 'det, 'mm, 'fs, 'z) wrapper_state_scheme" where
  "alvar_set_hide_texture_configuration E sz dpth chans mrg s =
     s\<lparr>hide_texture := cvCreateImage E sz dpth chans,
       hide_texture_size := sz * sz * chans,
       channels := chans,
       margin := mrg\<rparr>"

definition alvar_select_detector ::
  "int \<Rightarrow> ('cam, 'det, 'mm, 'fs, 'pp) wrapper15_state \<Rightarrow>
   ('cam, 'det, 'mm, 'fs, 'pp) wrapper15_state" where
  "alvar_select_detector d s = s\<lparr>detector_id := d\<rparr>"

subsection \<open>Registering a bundle\<close>

text \<open>\<^verbatim>\<open>strstr(haystack, needle) != NULL\<close>: the needle occurs in the haystack.\<close>

fun strstr_found :: "string \<Rightarrow> string \<Rightarrow> bool" where
  "strstr_found [] needle = (needle = [])"
| "strstr_found (c # cs) needle =
     (take (length needle) (c # cs) = needle \<or> strstr_found cs needle)"

text \<open>
  \<^verbatim>\<open>alvar_add_multi_marker\<close>, the same code in both versions. The array \<^verbatim>\<open>ids\<close> with its
  length \<^verbatim>\<open>num_ids\<close> is a list. The value \<^verbatim>\<open>Load\<close> returns is not read, and the function
  is \<^verbatim>\<open>void\<close>.
\<close>

definition alvar_add_multi_marker ::
  "('cam, 'det, 'mk, 'pose, 'mm, 'pp, 'fs) engine \<Rightarrow> int list \<Rightarrow> string \<Rightarrow>
   ('cam, 'det, 'mm, 'fs, 'z) wrapper_state_scheme \<Rightarrow>
   ('cam, 'det, 'mm, 'fs, 'z) wrapper_state_scheme" where
  "alvar_add_multi_marker E ids filename s =
     (let vector_id = ids;
          marker = MultiMarker_new E vector_id;
          (loaded, marker') =
            (if strstr_found filename ''.xml''
             then MultiMarker_Load E filename FILE_FORMAT_XML (files s) marker
             else MultiMarker_Load E filename FILE_FORMAT_DEFAULT (files s) marker)
      in s\<lparr>multiMarkers := multiMarkers s @ [marker']\<rparr>)"

subsection \<open>Detection and interest resolution\<close>

text \<open>
  The product of two \<^verbatim>\<open>int\<close> values. Signed overflow is undefined in C; the wrapper's
  targets wrap to 32 bits in two's complement, and so does the model.
\<close>

definition int32_mul :: "int \<Rightarrow> int \<Rightarrow> int" where
  "int32_mul a b = sint (word_of_int (a * b) :: 32 word)"

text \<open>
  The frame header that \<^verbatim>\<open>alvar_detect_marker\<close> and \<^verbatim>\<open>alvar_calibrate_camera\<close> fill in.
  \<open>cModel\<close> and \<open>chSeq\<close> are the memory at the two \<^verbatim>\<open>char*\<close> arguments; \<^verbatim>\<open>memcpy\<close>
  copies exactly four bytes of each.
\<close>

definition fill_image ::
  "('cam, 'det, 'mk, 'pose, 'mm, 'pp, 'fs) engine \<Rightarrow> int \<Rightarrow> (nat \<Rightarrow> char) \<Rightarrow> (nat \<Rightarrow> char) \<Rightarrow>
   (nat \<Rightarrow> byte) \<Rightarrow> int \<Rightarrow> int \<Rightarrow> IplImage \<Rightarrow> IplImage" where
  "fill_image E nCh cModel chSeq data cw ch img =
     img\<lparr>nSize := sizeof_IplImage E, ID := 0, nChannels := nCh, alphaChannel := 0,
         depth := IPL_DEPTH_8U E,
         colorModel := [cModel 0, cModel 1, cModel 2, cModel 3],
         channelSeq := [chSeq 0, chSeq 1, chSeq 2, chSeq 3],
         dataOrder := 0, origin := 0, align := 4, width := cw, height := ch,
         roi := None, maskROI := None, imageId := None, tileInfo := None,
         widthStep := int32_mul cw nCh, imageSize := int32_mul ch (int32_mul cw nCh),
         imageData := data, imageDataOrigin := None\<rparr>"

text \<open>
  The first loop: \<^verbatim>\<open>idTable[markers[i].GetId()] = i\<close> for \<open>i\<close> from 0 upwards. The
  list is the part of the marker vector from index \<open>i\<close> on.
\<close>

fun idTable_fill ::
  "('cam, 'det, 'mk, 'pose, 'mm, 'pp, 'fs) engine \<Rightarrow> (int \<rightharpoonup> nat) \<Rightarrow> nat \<Rightarrow> 'mk list \<Rightarrow> (int \<rightharpoonup> nat)" where
  "idTable_fill E t i [] = t"
| "idTable_fill E t i (m # ms) = idTable_fill E (t(Marker_GetId E m \<mapsto> i)) (Suc i) ms"

text \<open>
  The second loop: each requested id is looked up; a hit appends the stored index to
  \<^verbatim>\<open>foundMarkers\<close> and counts.
\<close>

fun interest_lookup :: "(int \<rightharpoonup> nat) \<Rightarrow> int list \<Rightarrow> nat list \<Rightarrow> int \<Rightarrow> nat list \<times> int" where
  "interest_lookup t [] found markerCount = (found, markerCount)"
| "interest_lookup t (r # rs) found markerCount =
     (case t r of
        Some ix \<Rightarrow> interest_lookup t rs (found @ [ix]) (markerCount + 1)
      | None \<Rightarrow> interest_lookup t rs found markerCount)"

text \<open>
  \<^verbatim>\<open>alvar_detect_marker\<close> of version 1.3. The requested ids with their count (the value
  of \<^verbatim>\<open>*numInterestedMarkers\<close> on entry) are a list. The result is the pair of values
  stored through \<^verbatim>\<open>numFoundMarkers\<close> and \<^verbatim>\<open>numInterestedMarkers\<close>, and the new globals.
\<close>

definition alvar_detect_marker13 ::
  "('cam, 'det, 'mk, 'pose, 'mm, 'pp, 'fs) engine \<Rightarrow> int \<Rightarrow> (nat \<Rightarrow> char) \<Rightarrow> (nat \<Rightarrow> char) \<Rightarrow> (nat \<Rightarrow> byte) \<Rightarrow>
   int list \<Rightarrow> real \<Rightarrow> real \<Rightarrow> ('cam, 'det, 'mm, 'fs, 'z) wrapper_state_scheme \<Rightarrow>
   int \<times> int \<times> ('cam, 'det, 'mm, 'fs, 'z) wrapper_state_scheme" where
  "alvar_detect_marker13 E nCh cModel chSeq data interestedMarkerIDs maxMarkerError maxTrackError s =
     (let img = fill_image E nCh cModel chSeq data (cam_width s) (cam_height s) (image_g s);
          s1 = s\<lparr>image_g := img\<rparr>;
          s2 = s1\<lparr>markerDetector :=
                   Detector_Detect E img (cam s1) True False maxMarkerError maxTrackError
                     (markerDetector s1)\<rparr>;
          s3 = s2\<lparr>curMaxTrackError := maxTrackError\<rparr>;
          ms = Detector_markers E (markerDetector s3);
          numFoundMarkers = int (length ms);
          interestedMarkerNum = int (length interestedMarkerIDs);
          s4 = s3\<lparr>foundMarkers := []\<rparr>
      in if 0 < length ms \<and> 0 < interestedMarkerNum
         then (let t = idTable_fill E Map.empty 0 ms;
                   (found, markerCount) = interest_lookup t interestedMarkerIDs [] 0
               in (numFoundMarkers, markerCount, s4\<lparr>idTable := t, foundMarkers := found\<rparr>))
         else (numFoundMarkers, 0, s4))"

text \<open>Version 1.5 runs the detector that \<^verbatim>\<open>detector_id\<close> selects and reads its markers.\<close>

definition active_detector :: "('cam, 'det, 'mm, 'fs, 'pp) wrapper15_state \<Rightarrow> 'det" where
  "active_detector s = (if detector_id s = 0 then markerDetector s else markerDetector2 s)"

definition alvar_detect_marker15 ::
  "('cam, 'det, 'mk, 'pose, 'mm, 'pp, 'fs) engine \<Rightarrow> int \<Rightarrow> (nat \<Rightarrow> char) \<Rightarrow> (nat \<Rightarrow> char) \<Rightarrow> (nat \<Rightarrow> byte) \<Rightarrow>
   int list \<Rightarrow> real \<Rightarrow> real \<Rightarrow> ('cam, 'det, 'mm, 'fs, 'pp) wrapper15_state \<Rightarrow>
   int \<times> int \<times> ('cam, 'det, 'mm, 'fs, 'pp) wrapper15_state" where
  "alvar_detect_marker15 E nCh cModel chSeq data interestedMarkerIDs maxMarkerError maxTrackError s =
     (let img = fill_image E nCh cModel chSeq data (cam_width s) (cam_height s) (image_g s);
          s1 = s\<lparr>image_g := img\<rparr>;
          s2 = (if detector_id s1 = 0
                then s1\<lparr>markerDetector :=
                          Detector_Detect E img (cam s1) True False maxMarkerError maxTrackError
                            (markerDetector s1)\<rparr>
                else s1\<lparr>markerDetector2 :=
                          Detector_Detect E img (cam s1) True False maxMarkerError maxTrackError
                            (markerDetector2 s1)\<rparr>);
          s3 = s2\<lparr>curMaxTrackError := maxTrackError\<rparr>;
          ms = Detector_markers E (active_detector s3);
          numFoundMarkers = int (length ms);
          interestedMarkerNum = int (length interestedMarkerIDs);
          s4 = s3\<lparr>foundMarkers := []\<rparr>
      in if 0 < length ms \<and> 0 < interestedMarkerNum
         then (let t = idTable_fill E Map.empty 0 ms;
                   (found, markerCount) = interest_lookup t interestedMarkerIDs [] 0
               in (numFoundMarkers, markerCount, s4\<lparr>idTable := t, foundMarkers := found\<rparr>))
         else (numFoundMarkers, 0, s4))"

subsection \<open>Pose requests\<close>

text \<open>\<^verbatim>\<open>memcpy(dst + off, src, sizeof(double) * n)\<close> on arrays of doubles.\<close>

definition memcpy_doubles ::
  "(nat \<Rightarrow> real) \<Rightarrow> nat \<Rightarrow> (nat \<Rightarrow> real) \<Rightarrow> nat \<Rightarrow> (nat \<Rightarrow> real)" where
  "memcpy_doubles dst off src n = (\<lambda>k. if off \<le> k \<and> k < off + n then src (k - off) else dst k)"

text \<open>
  The pixel loop of \<^verbatim>\<open>alvar_get_poses\<close>:
  \<^verbatim>\<open>for(int j = 0; j < hide_texture_size; j += channels, textureIndex += channels)\<close>.
  It does not end when \<^verbatim>\<open>channels\<close> is 0 and \<^verbatim>\<open>hide_texture_size\<close> is not, so the
  result is an option and \<open>None\<close> is the loop that runs forever. The comparison is
  unsigned, as in C. The counters \<open>j\<close> and \<open>textureIndex\<close> are \<^verbatim>\<open>int\<close> in the source
  and index arrays, so the C is defined only while they stay below \<open>2 ^ 31\<close>; in that
  range \<^verbatim>\<open>j += channels\<close> does not wrap before the loop ends. The model counts in
  \<open>nat\<close> and agrees with the source in that range only, which every statement about
  the loop assumes (\<open>texture_indices_in_range\<close>). The result is the output array and the
  value of \<open>textureIndex\<close> after the loop.
\<close>

partial_function (option) copy_texture ::
  "32 word \<Rightarrow> 32 word \<Rightarrow> (nat \<Rightarrow> byte) \<Rightarrow> nat \<Rightarrow> nat \<Rightarrow> (nat \<Rightarrow> byte) \<Rightarrow>
   ((nat \<Rightarrow> byte) \<times> nat) option" where
  "copy_texture chans hts src j textureIndex hideTextures =
     (if j < unat hts
      then copy_texture chans hts src (j + unat chans) (textureIndex + unat chans)
             (if chans = 4
              then hideTextures(textureIndex := src j, textureIndex + 1 := src (j + 1),
                     textureIndex + 2 := src (j + 2), textureIndex + 3 := src (j + 3))
              else hideTextures(textureIndex := src j, textureIndex + 1 := src (j + 1),
                     textureIndex + 2 := src (j + 2)))
      else Some (hideTextures, textureIndex))"

text \<open>The pixel loop of \<^verbatim>\<open>alvar_get_multi_marker_poses\<close>: it reads \<open>j + 2\<close>, \<open>j + 1\<close>, \<open>j\<close>.\<close>

partial_function (option) copy_texture_swapped ::
  "32 word \<Rightarrow> 32 word \<Rightarrow> (nat \<Rightarrow> byte) \<Rightarrow> nat \<Rightarrow> nat \<Rightarrow> (nat \<Rightarrow> byte) \<Rightarrow>
   ((nat \<Rightarrow> byte) \<times> nat) option" where
  "copy_texture_swapped chans hts src j textureIndex hideTextures =
     (if j < unat hts
      then copy_texture_swapped chans hts src (j + unat chans) (textureIndex + unat chans)
             (if chans = 4
              then hideTextures(textureIndex := src (j + 2), textureIndex + 1 := src (j + 1),
                     textureIndex + 2 := src j, textureIndex + 3 := src (j + 3))
              else hideTextures(textureIndex := src (j + 2), textureIndex + 1 := src (j + 1),
                     textureIndex + 2 := src j))
      else Some (hideTextures, textureIndex))"

text \<open>
  A counted loop \<^verbatim>\<open>for(i = 0; i < v.size(); ++i)\<close> whose body leaves the size of \<open>v\<close>
  as it is: the body runs on the indices in increasing order, and a fault or a body
  that does not return ends the run.
\<close>

fun for_indices ::
  "(nat \<Rightarrow> 'st \<Rightarrow> (fault + 'st) option) \<Rightarrow> nat list \<Rightarrow> 'st \<Rightarrow> (fault + 'st) option" where
  "for_indices body [] st = Some (Inr st)"
| "for_indices body (i # is) st =
     (case body i st of
        None \<Rightarrow> None
      | Some (Inl f) \<Rightarrow> Some (Inl f)
      | Some (Inr st') \<Rightarrow> for_indices body is st')"

text \<open>
  The hide-texture block of both pose loops: \<^verbatim>\<open>BuildHideTexture\<close> into the scratch
  texture, then the pixel loop \<open>copy\<close>. The scratch texture is reached through the
  global pointer, which is \<^verbatim>\<open>NULL\<close> until the texture is configured (and when
  \<^verbatim>\<open>cvCreateImage\<close> returns \<^verbatim>\<open>NULL\<close>); the wrapper does not test it, and handing
  \<^verbatim>\<open>NULL\<close> to \<^verbatim>\<open>BuildHideTexture\<close> is the fault \<open>NullPointer\<close>.
\<close>

definition hide_texture_block ::
  "('cam, 'det, 'mk, 'pose, 'mm, 'pp, 'fs) engine \<Rightarrow>
   (32 word \<Rightarrow> 32 word \<Rightarrow> (nat \<Rightarrow> byte) \<Rightarrow> nat \<Rightarrow> nat \<Rightarrow> (nat \<Rightarrow> byte) \<Rightarrow> ((nat \<Rightarrow> byte) \<times> nat) option) \<Rightarrow>
   (nat \<Rightarrow> real) \<Rightarrow> ('cam, 'det, 'mm, 'fs, 'z) wrapper_state_scheme \<Rightarrow> (nat \<Rightarrow> byte) \<Rightarrow> nat \<Rightarrow>
   (fault + ('cam, 'det, 'mm, 'fs, 'z) wrapper_state_scheme \<times> (nat \<Rightarrow> byte) \<times> nat) option" where
  "hide_texture_block E copy mat s hideTextures textureIndex =
     (case hide_texture s of
        None \<Rightarrow> Some (Inl NullPointer)
      | Some t \<Rightarrow>
          (let t' = BuildHideTexture E (image_g s) t (cam s) mat
                      (- margin s, - margin s) (margin s, margin s)
           in case copy (channels s) (hide_texture_size s) (imageData t') 0 textureIndex hideTextures of
                None \<Rightarrow> None
              | Some (hideTextures', textureIndex') \<Rightarrow>
                  Some (Inr (s\<lparr>hide_texture := Some t'\<rparr>, hideTextures', textureIndex'))))"

text \<open>
  One round of the loop of \<^verbatim>\<open>alvar_get_poses\<close>, on the marker vector \<open>ms\<close> of the
  detector in use. \<^verbatim>\<open>operator[]\<close> is not checked in C++; an index of \<^verbatim>\<open>foundMarkers\<close>
  that the vector does not have is the fault \<open>OutOfRange\<close>.
\<close>

definition get_poses_step ::
  "('cam, 'det, 'mk, 'pose, 'mm, 'pp, 'fs) engine \<Rightarrow> bool \<Rightarrow> 'mk list \<Rightarrow> nat \<Rightarrow>
   ('cam, 'det, 'mm, 'fs, 'z) wrapper_state_scheme \<times> (nat \<Rightarrow> int) \<times> (nat \<Rightarrow> real) \<times> (nat \<Rightarrow> byte) \<times> nat \<Rightarrow>
   (fault + ('cam, 'det, 'mm, 'fs, 'z) wrapper_state_scheme \<times> (nat \<Rightarrow> int) \<times> (nat \<Rightarrow> real) \<times>
      (nat \<Rightarrow> byte) \<times> nat) option" where
  "get_poses_step E returnHideTextures ms i st =
     (case st of (s, ids, poseMats, hideTextures, textureIndex) \<Rightarrow>
        if length ms \<le> foundMarkers s ! i then Some (Inl OutOfRange)
        else
          (let ids' = ids(i := Marker_GetId E (ms ! (foundMarkers s ! i)));
               p = Marker_pose E (ms ! (foundMarkers s ! i));
               mat = Pose_GetMatrixGL E p;
               poseMats' = memcpy_doubles poseMats (i * 16) mat 16
           in if returnHideTextures
              then (case hide_texture_block E copy_texture mat s hideTextures textureIndex of
                      None \<Rightarrow> None
                    | Some (Inl f) \<Rightarrow> Some (Inl f)
                    | Some (Inr (s', hideTextures', textureIndex')) \<Rightarrow>
                        Some (Inr (s', ids', poseMats', hideTextures', textureIndex')))
              else Some (Inr (s, ids', poseMats', hideTextures, textureIndex))))"

definition alvar_get_poses13 ::
  "('cam, 'det, 'mk, 'pose, 'mm, 'pp, 'fs) engine \<Rightarrow> (nat \<Rightarrow> int) \<Rightarrow> (nat \<Rightarrow> real) \<Rightarrow> bool \<Rightarrow>
   (nat \<Rightarrow> byte) \<Rightarrow> ('cam, 'det, 'mm, 'fs, 'z) wrapper_state_scheme \<Rightarrow>
   (fault + ('cam, 'det, 'mm, 'fs, 'z) wrapper_state_scheme \<times> (nat \<Rightarrow> int) \<times> (nat \<Rightarrow> real) \<times>
      (nat \<Rightarrow> byte)) option" where
  "alvar_get_poses13 E ids poseMats returnHideTextures hideTextures s =
     (if length (foundMarkers s) = 0 then Some (Inr (s, ids, poseMats, hideTextures))
      else
        (case for_indices
                (get_poses_step E returnHideTextures (Detector_markers E (markerDetector s)))
                [0..<length (foundMarkers s)] (s, ids, poseMats, hideTextures, 0) of
           None \<Rightarrow> None
         | Some (Inl f) \<Rightarrow> Some (Inl f)
         | Some (Inr (s', ids', poseMats', hideTextures', textureIndex')) \<Rightarrow>
             Some (Inr (s', ids', poseMats', hideTextures'))))"

definition alvar_get_poses15 ::
  "('cam, 'det, 'mk, 'pose, 'mm, 'pp, 'fs) engine \<Rightarrow> (nat \<Rightarrow> int) \<Rightarrow> (nat \<Rightarrow> real) \<Rightarrow> bool \<Rightarrow>
   (nat \<Rightarrow> byte) \<Rightarrow> ('cam, 'det, 'mm, 'fs, 'pp) wrapper15_state \<Rightarrow>
   (fault + ('cam, 'det, 'mm, 'fs, 'pp) wrapper15_state \<times> (nat \<Rightarrow> int) \<times> (nat \<Rightarrow> real) \<times>
      (nat \<Rightarrow> byte)) option" where
  "alvar_get_poses15 E ids poseMats returnHideTextures hideTextures s =
     (if length (foundMarkers s) = 0 then Some (Inr (s, ids, poseMats, hideTextures))
      else
        (case for_indices
                (get_poses_step E returnHideTextures (Detector_markers E (active_detector s)))
                [0..<length (foundMarkers s)] (s, ids, poseMats, hideTextures, 0) of
           None \<Rightarrow> None
         | Some (Inl f) \<Rightarrow> Some (Inl f)
         | Some (Inr (s', ids', poseMats', hideTextures', textureIndex')) \<Rightarrow>
             Some (Inr (s', ids', poseMats', hideTextures'))))"

text \<open>
  One round of the loop of \<^verbatim>\<open>alvar_get_multi_marker_poses\<close> in version 1.3, for the
  bundle at index \<open>i\<close> (\<^verbatim>\<open>at(i)\<close> is within the vector inside the loop), in two
  parts. The first part runs from \<^verbatim>\<open>Pose pose;\<close> to the last \<^verbatim>\<open>Update\<close>: it returns
  the globals, the array \<open>errors\<close> and the local \<open>pose\<close> at that point. \<^verbatim>\<open>pose\<close> is a
  fresh local; \<^verbatim>\<open>Update\<close> and \<^verbatim>\<open>SetTrackMarkers\<close> take it by reference.
\<close>

definition bundle_update13 ::
  "('cam, 'det, 'mk, 'pose, 'mm, 'pp, 'fs) engine \<Rightarrow> nat \<Rightarrow>
   ('cam, 'det, 'mm, 'fs, 'z) wrapper_state_scheme \<Rightarrow> (nat \<Rightarrow> real) \<Rightarrow>
   ('cam, 'det, 'mm, 'fs, 'z) wrapper_state_scheme \<times> (nat \<Rightarrow> real) \<times> 'pose" where
  "bundle_update13 E i s errors =
     (let pose = Pose_new E;
          (s1, errors1, pose1) =
            (if detect_additional s
             then (case MultiMarker_Update E (Detector_markers E (markerDetector s)) (cam s)
                          pose (multiMarkers s ! i) of
                     (e, p, m) \<Rightarrow>
                       (case MultiMarker_SetTrackMarkers E (markerDetector s) (cam s) p m of
                          (d, p', m') \<Rightarrow>
                            (s\<lparr>markerDetector :=
                                 Detector_DetectAdditional E (image_g s) (cam s) False
                                   (curMaxTrackError s) d,
                               multiMarkers := (multiMarkers s)[i := m']\<rparr>,
                             errors(i := e), p')))
             else (s, errors, pose));
          (e2, pose2, m2) =
            MultiMarker_Update E (Detector_markers E (markerDetector s1)) (cam s1) pose1
              (multiMarkers s1 ! i)
      in (s1\<lparr>multiMarkers := (multiMarkers s1)[i := m2]\<rparr>, errors1(i := e2), pose2))"

text \<open>The whole round: the id, the first part, the pose matrix and the hide texture.\<close>

definition multi_marker_step13 ::
  "('cam, 'det, 'mk, 'pose, 'mm, 'pp, 'fs) engine \<Rightarrow> bool \<Rightarrow> nat \<Rightarrow>
   ('cam, 'det, 'mm, 'fs, 'z) wrapper_state_scheme \<times> (nat \<Rightarrow> int) \<times> (nat \<Rightarrow> real) \<times> (nat \<Rightarrow> real) \<times>
     (nat \<Rightarrow> byte) \<times> nat \<Rightarrow>
   (fault + ('cam, 'det, 'mm, 'fs, 'z) wrapper_state_scheme \<times> (nat \<Rightarrow> int) \<times> (nat \<Rightarrow> real) \<times>
      (nat \<Rightarrow> real) \<times> (nat \<Rightarrow> byte) \<times> nat) option" where
  "multi_marker_step13 E returnHideTextures i st =
     (case st of (s, ids, poseMats, errors, hideTextures, textureIndex) \<Rightarrow>
        (let ids' = ids(i := int i);
             (s2, errors2, pose2) = bundle_update13 E i s errors;
             mat = Pose_GetMatrixGL E pose2;
             poseMats' = memcpy_doubles poseMats (i * 16) mat 16
         in if returnHideTextures
            then (case hide_texture_block E copy_texture_swapped mat s2 hideTextures textureIndex of
                    None \<Rightarrow> None
                  | Some (Inl f) \<Rightarrow> Some (Inl f)
                  | Some (Inr (s', hideTextures', textureIndex')) \<Rightarrow>
                      Some (Inr (s', ids', poseMats', errors2, hideTextures', textureIndex')))
            else Some (Inr (s2, ids', poseMats', errors2, hideTextures, textureIndex))))"

text \<open>
  The same round in version 1.5: the detect-additional block names \<^verbatim>\<open>markerDetector\<close>
  in all three calls, and only the \<^verbatim>\<open>Update\<close> after it looks at \<^verbatim>\<open>detector_id\<close>.
\<close>

definition bundle_update15 ::
  "('cam, 'det, 'mk, 'pose, 'mm, 'pp, 'fs) engine \<Rightarrow> nat \<Rightarrow>
   ('cam, 'det, 'mm, 'fs, 'pp) wrapper15_state \<Rightarrow> (nat \<Rightarrow> real) \<Rightarrow>
   ('cam, 'det, 'mm, 'fs, 'pp) wrapper15_state \<times> (nat \<Rightarrow> real) \<times> 'pose" where
  "bundle_update15 E i s errors =
     (let pose = Pose_new E;
          (s1, errors1, pose1) =
            (if detect_additional s
             then (case MultiMarker_Update E (Detector_markers E (markerDetector s)) (cam s)
                          pose (multiMarkers s ! i) of
                     (e, p, m) \<Rightarrow>
                       (case MultiMarker_SetTrackMarkers E (markerDetector s) (cam s) p m of
                          (d, p', m') \<Rightarrow>
                            (s\<lparr>markerDetector :=
                                 Detector_DetectAdditional E (image_g s) (cam s) False
                                   (curMaxTrackError s) d,
                               multiMarkers := (multiMarkers s)[i := m']\<rparr>,
                             errors(i := e), p')))
             else (s, errors, pose));
          (e2, pose2, m2) =
            (if detector_id s1 = 0
             then MultiMarker_Update E (Detector_markers E (markerDetector s1)) (cam s1) pose1
                    (multiMarkers s1 ! i)
             else MultiMarker_Update E (Detector_markers E (markerDetector2 s1)) (cam s1) pose1
                    (multiMarkers s1 ! i))
      in (s1\<lparr>multiMarkers := (multiMarkers s1)[i := m2]\<rparr>, errors1(i := e2), pose2))"

definition multi_marker_step15 ::
  "('cam, 'det, 'mk, 'pose, 'mm, 'pp, 'fs) engine \<Rightarrow> bool \<Rightarrow> nat \<Rightarrow>
   ('cam, 'det, 'mm, 'fs, 'pp) wrapper15_state \<times> (nat \<Rightarrow> int) \<times> (nat \<Rightarrow> real) \<times> (nat \<Rightarrow> real) \<times>
     (nat \<Rightarrow> byte) \<times> nat \<Rightarrow>
   (fault + ('cam, 'det, 'mm, 'fs, 'pp) wrapper15_state \<times> (nat \<Rightarrow> int) \<times> (nat \<Rightarrow> real) \<times>
      (nat \<Rightarrow> real) \<times> (nat \<Rightarrow> byte) \<times> nat) option" where
  "multi_marker_step15 E returnHideTextures i st =
     (case st of (s, ids, poseMats, errors, hideTextures, textureIndex) \<Rightarrow>
        (let ids' = ids(i := int i);
             (s2, errors2, pose2) = bundle_update15 E i s errors;
             mat = Pose_GetMatrixGL E pose2;
             poseMats' = memcpy_doubles poseMats (i * 16) mat 16
         in if returnHideTextures
            then (case hide_texture_block E copy_texture_swapped mat s2 hideTextures textureIndex of
                    None \<Rightarrow> None
                  | Some (Inl f) \<Rightarrow> Some (Inl f)
                  | Some (Inr (s', hideTextures', textureIndex')) \<Rightarrow>
                      Some (Inr (s', ids', poseMats', errors2, hideTextures', textureIndex')))
            else Some (Inr (s2, ids', poseMats', errors2, hideTextures, textureIndex))))"

text \<open>
  \<^verbatim>\<open>alvar_get_multi_marker_poses\<close>. The arguments \<open>ids\<close>, \<open>poseMats\<close>, \<open>errors\<close> and
  \<open>hideTextures\<close> are the caller's arrays on entry; the result holds them on return.
\<close>

definition alvar_get_multi_marker_poses13 ::
  "('cam, 'det, 'mk, 'pose, 'mm, 'pp, 'fs) engine \<Rightarrow> (nat \<Rightarrow> int) \<Rightarrow> (nat \<Rightarrow> real) \<Rightarrow> (nat \<Rightarrow> real) \<Rightarrow>
   bool \<Rightarrow> (nat \<Rightarrow> byte) \<Rightarrow> ('cam, 'det, 'mm, 'fs, 'z) wrapper_state_scheme \<Rightarrow>
   (fault + ('cam, 'det, 'mm, 'fs, 'z) wrapper_state_scheme \<times> (nat \<Rightarrow> int) \<times> (nat \<Rightarrow> real) \<times>
      (nat \<Rightarrow> real) \<times> (nat \<Rightarrow> byte)) option" where
  "alvar_get_multi_marker_poses13 E ids poseMats errors returnHideTextures hideTextures s =
     (if length (Detector_markers E (markerDetector s)) = 0
      then Some (Inr (s, ids, poseMats, errors, hideTextures))
      else
        (case for_indices (multi_marker_step13 E returnHideTextures)
                [0..<length (multiMarkers s)] (s, ids, poseMats, errors, hideTextures, 0) of
           None \<Rightarrow> None
         | Some (Inl f) \<Rightarrow> Some (Inl f)
         | Some (Inr (s', ids', poseMats', errors', hideTextures', textureIndex')) \<Rightarrow>
             Some (Inr (s', ids', poseMats', errors', hideTextures'))))"

definition alvar_get_multi_marker_poses15 ::
  "('cam, 'det, 'mk, 'pose, 'mm, 'pp, 'fs) engine \<Rightarrow> (nat \<Rightarrow> int) \<Rightarrow> (nat \<Rightarrow> real) \<Rightarrow> (nat \<Rightarrow> real) \<Rightarrow>
   bool \<Rightarrow> (nat \<Rightarrow> byte) \<Rightarrow> ('cam, 'det, 'mm, 'fs, 'pp) wrapper15_state \<Rightarrow>
   (fault + ('cam, 'det, 'mm, 'fs, 'pp) wrapper15_state \<times> (nat \<Rightarrow> int) \<times> (nat \<Rightarrow> real) \<times>
      (nat \<Rightarrow> real) \<times> (nat \<Rightarrow> byte)) option" where
  "alvar_get_multi_marker_poses15 E ids poseMats errors returnHideTextures hideTextures s =
     (if length (Detector_markers E (active_detector s)) = 0
      then Some (Inr (s, ids, poseMats, errors, hideTextures))
      else
        (case for_indices (multi_marker_step15 E returnHideTextures)
                [0..<length (multiMarkers s)] (s, ids, poseMats, errors, hideTextures, 0) of
           None \<Rightarrow> None
         | Some (Inl f) \<Rightarrow> Some (Inl f)
         | Some (Inr (s', ids', poseMats', errors', hideTextures', textureIndex')) \<Rightarrow>
             Some (Inr (s', ids', poseMats', errors', hideTextures'))))"

subsection \<open>Calibration (version 1.5)\<close>

definition alvar_calibrate_camera ::
  "('cam, 'det, 'mk, 'pose, 'mm, 'pp, 'fs) engine \<Rightarrow> int \<Rightarrow> (nat \<Rightarrow> char) \<Rightarrow> (nat \<Rightarrow> char) \<Rightarrow> (nat \<Rightarrow> byte) \<Rightarrow>
   real \<Rightarrow> int \<Rightarrow> int \<Rightarrow> ('cam, 'det, 'mm, 'fs, 'pp) wrapper15_state \<Rightarrow>
   bool \<times> ('cam, 'det, 'mm, 'fs, 'pp) wrapper15_state" where
  "alvar_calibrate_camera E nCh cModel chSeq data etalon_square_size etalon_rows etalon_columns s =
     (let img = fill_image E nCh cModel chSeq data (cam_width s) (cam_height s) (image_g s);
          s1 = s\<lparr>image_g := img\<rparr>;
          (ret, pp') =
            ProjPoints_AddPointsUsingChessboard E img etalon_square_size etalon_rows
              etalon_columns False (pp s1);
          s2 = s1\<lparr>pp := pp'\<rparr>
      in (ret, if ret then s2\<lparr>calibration_started := True\<rparr> else s2))"

definition alvar_finalize_calibration ::
  "('cam, 'det, 'mk, 'pose, 'mm, 'pp, 'fs) engine \<Rightarrow> string \<Rightarrow>
   ('cam, 'det, 'mm, 'fs, 'pp) wrapper15_state \<Rightarrow>
   bool \<times> ('cam, 'det, 'mm, 'fs, 'pp) wrapper15_state" where
  "alvar_finalize_calibration E calibrationFilename s =
     (if \<not> calibration_started s then (False, s)
      else
        (let s1 = s\<lparr>cam := Camera_Calibrate E (pp s) (cam s)\<rparr>;
             s2 = s1\<lparr>pp := ProjPoints_Reset E (pp s1)\<rparr>;
             (ret, files') = Camera_SaveCalib E calibrationFilename (cam s2) (files s2);
             s3 = s2\<lparr>files := files'\<rparr>
         in (ret, if ret then s3\<lparr>calibration_started := False\<rparr> else s3)))"

subsection \<open>The properties of the interface, as predicates\<close>

text \<open>
  What interest resolution promises about the indices \<open>found\<close> and the count \<open>cnt\<close> it
  returns for the detection result \<open>ms\<close> and the requested ids \<open>req\<close>: the markers at
  the indices carry the requested ids that were detected, in the order of the request;
  every index is one of the detection result; the count is the number of indices and
  at most the number of requested ids; and when no id is requested twice, the count is
  at most the number of detected markers.
\<close>

definition interest_resolved ::
  "('cam, 'det, 'mk, 'pose, 'mm, 'pp, 'fs) engine \<Rightarrow> 'mk list \<Rightarrow> int list \<Rightarrow> nat list \<Rightarrow> int \<Rightarrow> bool" where
  "interest_resolved E ms req found cnt \<longleftrightarrow>
     map (\<lambda>k. Marker_GetId E (ms ! k)) found = filter (\<lambda>r. r \<in> Marker_GetId E ` set ms) req \<and>
     (\<forall>k \<in> set found. k < length ms) \<and>
     cnt = int (length found) \<and>
     cnt \<le> int (length req) \<and>
     (distinct req \<longrightarrow> cnt \<le> int (length ms))"

text \<open>
  The id table \<open>t\<close> holds, for every id of the detection result \<open>ms\<close>, the index of the
  last marker with that id, and nothing else.
\<close>

definition last_occurrence_table ::
  "('cam, 'det, 'mk, 'pose, 'mm, 'pp, 'fs) engine \<Rightarrow> 'mk list \<Rightarrow> (int \<rightharpoonup> nat) \<Rightarrow> bool" where
  "last_occurrence_table E ms t \<longleftrightarrow>
     (\<forall>r k. t r = Some k \<longleftrightarrow>
        k < length ms \<and> Marker_GetId E (ms ! k) = r \<and>
        (\<forall>j < length ms. Marker_GetId E (ms ! j) = r \<longrightarrow> j \<le> k))"

text \<open>
  The condition under which the pixel loop of a pose request returns: when hide textures
  are requested, the scratch texture exists, and \<^verbatim>\<open>channels\<close> is not 0 unless
  \<^verbatim>\<open>hide_texture_size\<close> is 0 too (\<^verbatim>\<open>alvar_set_hide_texture_configuration\<close> sets the
  size to a multiple of \<^verbatim>\<open>channels\<close>).
\<close>

definition textures_ready :: "bool \<Rightarrow> ('cam, 'det, 'mm, 'fs, 'z) wrapper_state_scheme \<Rightarrow> bool" where
  "textures_ready returnHideTextures s \<longleftrightarrow>
     (returnHideTextures \<longrightarrow>
        hide_texture s \<noteq> None \<and> (channels s \<noteq> 0 \<or> hide_texture_size s = 0))"

text \<open>
  The pixel loops count in \<^verbatim>\<open>int\<close>: \<open>n\<close> textures written from \<open>textureIndex\<close> on stay
  within the range of the counters \<open>j\<close> and \<open>textureIndex\<close>, the three-byte look-ahead
  included. Within this range no counter of the source wraps or turns negative.
\<close>

definition texture_indices_in_range ::
  "nat \<Rightarrow> nat \<Rightarrow> ('cam, 'det, 'mm, 'fs, 'z) wrapper_state_scheme \<Rightarrow> bool" where
  "texture_indices_in_range textureIndex n s \<longleftrightarrow>
     textureIndex + n * (unat (hide_texture_size s) + unat (channels s)) + 3 < 2 ^ 31"


text \<open>
  Processing in registration order, in the spec's words: the bundles with the registration
  indices below \<open>n\<close> are processed by \<open>process\<close>, each one after all the bundles registered
  before it and on what they left behind; a fault or a step that does not return ends
  the run.
\<close>

fun in_registration_order ::
  "(nat \<Rightarrow> 'st \<Rightarrow> (fault + 'st) option) \<Rightarrow> nat \<Rightarrow> 'st \<Rightarrow> (fault + 'st) option" where
  "in_registration_order process 0 st = Some (Inr st)"
| "in_registration_order process (Suc n) st =
     (case in_registration_order process n st of
        None \<Rightarrow> None
      | Some (Inl f) \<Rightarrow> Some (Inl f)
      | Some (Inr st') \<Rightarrow> process n st')"

text \<open>What a bundle-pose request returns, without the final value of \<open>textureIndex\<close>.\<close>

definition without_texture_index ::
  "(fault + 's \<times> 'a \<times> 'b \<times> 'c \<times> 'd \<times> nat) option \<Rightarrow> (fault + 's \<times> 'a \<times> 'b \<times> 'c \<times> 'd) option" where
  "without_texture_index r =
     (case r of
        None \<Rightarrow> None
      | Some (Inl f) \<Rightarrow> Some (Inl f)
      | Some (Inr (s', ids', poseMats', errors', hideTextures', textureIndex')) \<Rightarrow>
          Some (Inr (s', ids', poseMats', errors', hideTextures')))"

text \<open>The ids a bundle-pose request leaves at the given offsets of the id array.\<close>

definition reported_ids ::
  "(fault + 's \<times> (nat \<Rightarrow> int) \<times> 'r) option \<Rightarrow> nat list \<Rightarrow> int list option" where
  "reported_ids r offsets =
     (case r of
        Some (Inr (s', ids', rest)) \<Rightarrow> Some (map ids' offsets)
      | _ \<Rightarrow> None)"

subsection \<open>A small engine for concrete runs\<close>

text \<open>
  An instance of the engine on which the entry points can be evaluated. A camera is the
  name of the source of its calibration; the file system is the list of the files that
  exist; a marker is its id and its pose is that id; a detector is the list of the
  markers it holds and the list of the tracking calls it has received; a bundle is its
  member ids and whether its geometry was loaded; the calibration accumulator is the
  number of observations. \<open>Detect\<close> reads the number of markers from the first byte of
  the frame and their ids from the bytes after it. \<open>Update\<close> reports the number of
  members missing from the markers as the error and the number present as the pose.
\<close>

datatype demo_call = TrackHint | Additional real

text \<open>The memory at a C string: its characters, then zero bytes.\<close>

definition c_str :: "string \<Rightarrow> nat \<Rightarrow> char" where
  "c_str cs k = (if k < length cs then cs ! k else CHR 0x00)"

definition frame_of :: "byte list \<Rightarrow> nat \<Rightarrow> byte" where
  "frame_of bs k = (if k < length bs then bs ! k else 0)"

definition blank_image :: IplImage where
  "blank_image =
     \<lparr>nSize = 0, ID = 0, nChannels = 0, alphaChannel = 0, depth = 0, colorModel = [],
      channelSeq = [], dataOrder = 0, origin = 0, align = 0, width = 0, height = 0,
      roi = None, maskROI = None, imageId = None, tileInfo = None, imageSize = 0,
      imageData = frame_of [], widthStep = 0, imageDataOrigin = None\<rparr>"

definition demo_engine ::
  "(string, int list \<times> demo_call list, int, nat, int list \<times> bool, nat, string list) engine" where
  "demo_engine =
     \<lparr>sizeof_IplImage = 112,
      IPL_DEPTH_8U = 8,
      Camera_SetCalib = (\<lambda>f w h fs c. if f \<in> set fs then (True, f) else (False, c)),
      Camera_SetRes = (\<lambda>w h c. ''synthetic''),
      Camera_Calibrate = (\<lambda>p c. ''calibrated''),
      Camera_SaveCalib = (\<lambda>f c fs. if f = [] then (False, fs) else (True, f # fs)),
      Detector_SetMarkerSize = (\<lambda>sz res mrg d. d),
      Detector_SetMarkerSizeForId = (\<lambda>i sz d. d),
      Detector_Detect = (\<lambda>img c track labeling mme mte d.
         (map (\<lambda>k. uint (imageData img (Suc k))) [0..<unat (imageData img 0)], snd d)),
      Detector_DetectAdditional = (\<lambda>img c labeling mte d. (fst d, snd d @ [Additional mte])),
      Detector_markers = fst,
      Marker_GetId = (\<lambda>m. m),
      Marker_pose = (\<lambda>m. nat m),
      Pose_new = 0,
      Pose_GetMatrixGL = (\<lambda>p k. real p),
      MultiMarker_new = (\<lambda>ids. (ids, False)),
      MultiMarker_Load = (\<lambda>f fmt fs m. if f \<in> set fs then (True, (fst m, True)) else (False, m)),
      MultiMarker_Update = (\<lambda>ms c p m.
         (real (length (filter (\<lambda>i. i \<notin> set ms) (fst m))),
          length (filter (\<lambda>i. i \<in> set ms) (fst m)), m)),
      MultiMarker_SetTrackMarkers = (\<lambda>d c p m. ((fst d, snd d @ [TrackHint]), p, m)),
      ProjPoints_AddPointsUsingChessboard = (\<lambda>img sq rows cols visualize p.
         if imageData img 0 = 1 then (True, Suc p) else (False, p)),
      ProjPoints_Reset = (\<lambda>p. 0),
      cvCreateImage = (\<lambda>sz dpth chans. Some blank_image),
      BuildHideTexture = (\<lambda>img t c mat p1 p2. t\<lparr>imageData := imageData img\<rparr>)\<rparr>"

text \<open>The globals before the first call: zero-initialised, with one file on disk.\<close>

definition demo_state13 ::
  "(string, int list \<times> demo_call list, int list \<times> bool, string list) wrapper_state" where
  "demo_state13 =
     \<lparr>cam = [], cam_width = 0, cam_height = 0, markerDetector = ([], []), multiMarkers = [],
      image_g = blank_image, hide_texture = None, hide_texture_size = 0, channels = 0,
      margin = 0, idTable = Map.empty, foundMarkers = [], detect_additional = False,
      curMaxTrackError = 0, files = [''calib.xml'']\<rparr>"

definition demo_state15 ::
  "(string, int list \<times> demo_call list, int list \<times> bool, string list, nat) wrapper15_state" where
  "demo_state15 =
     \<lparr>cam = [], cam_width = 0, cam_height = 0, markerDetector = ([], []), multiMarkers = [],
      image_g = blank_image, hide_texture = None, hide_texture_size = 0, channels = 0,
      margin = 0, idTable = Map.empty, foundMarkers = [], detect_additional = False,
      curMaxTrackError = 0, files = [''calib.xml''],
      markerDetector2 = ([], []), detector_id = 0, pp = 0, calibration_started = False,
      bundle_initialized = False\<rparr>"

text \<open>A session in which one chessboard observation has succeeded.\<close>

definition demo_observed ::
  "(string, int list \<times> demo_call list, int list \<times> bool, string list, nat) wrapper15_state" where
  "demo_observed =
     snd (alvar_calibrate_camera demo_engine 3 (c_str ''RGB'') (c_str ''RGB'') (frame_of [1]) 2.5 6 8
       (snd (alvar_init_camera15 demo_engine None 640 480 demo_state15)))"

text \<open>
  Sessions with one bundle registered and detect-additional mode on, in which no frame
  has been processed yet.
\<close>

definition demo_bundle_no_markers13 ::
  "(string, int list \<times> demo_call list, int list \<times> bool, string list) wrapper_state" where
  "demo_bundle_no_markers13 =
     alvar_set_detect_additional True
       (alvar_add_multi_marker demo_engine [3, 7] ''calib.xml''
          (snd (alvar_init_camera13 demo_engine None 640 480 demo_state13)))"

definition demo_bundle_no_markers15 ::
  "(string, int list \<times> demo_call list, int list \<times> bool, string list, nat) wrapper15_state" where
  "demo_bundle_no_markers15 =
     alvar_set_detect_additional True
       (alvar_add_multi_marker demo_engine [3, 7] ''calib.xml''
          (snd (alvar_init_camera15 demo_engine None 640 480 demo_state15)))"

text \<open>
  Further sessions. A 1x1 four-channel hide texture, the bundle of the marker 1, and a frame
  that shows the marker 1 (its pose is that of the bundle: one member seen), in both
  versions; two bundles and a frame that shows the markers 3 and 7; and a version 1.5
  session on the second detector with one bundle and detect-additional mode on. The
  caller's arrays hold 9 (ids) and 0 (doubles and bytes) on entry.
\<close>

definition demo_ids :: "nat \<Rightarrow> int" where
  "demo_ids k = 9"

definition demo_doubles :: "nat \<Rightarrow> real" where
  "demo_doubles k = 0"

definition demo_bytes :: "nat \<Rightarrow> byte" where
  "demo_bytes k = 0"

definition demo_textured13 ::
  "(string, int list \<times> demo_call list, int list \<times> bool, string list) wrapper_state" where
  "demo_textured13 =
     snd (snd (alvar_detect_marker13 demo_engine 4 (c_str ''RGBA'') (c_str ''RGBA'')
       (frame_of [1, 1, 20, 30]) [1] 0.08 0.2
       (alvar_add_multi_marker demo_engine [1] ''calib.xml''
          (alvar_set_hide_texture_configuration demo_engine 1 8 4 0.5
             (snd (alvar_init_camera13 demo_engine None 1 1 demo_state13))))))"

definition demo_textured15 ::
  "(string, int list \<times> demo_call list, int list \<times> bool, string list, nat) wrapper15_state" where
  "demo_textured15 =
     snd (snd (alvar_detect_marker15 demo_engine 4 (c_str ''RGBA'') (c_str ''RGBA'')
       (frame_of [1, 1, 20, 30]) [1] 0.08 0.2
       (alvar_add_multi_marker demo_engine [1] ''calib.xml''
          (alvar_set_hide_texture_configuration demo_engine 1 8 4 0.5
             (snd (alvar_init_camera15 demo_engine None 1 1 demo_state15))))))"

definition demo_two_bundles13 ::
  "(string, int list \<times> demo_call list, int list \<times> bool, string list) wrapper_state" where
  "demo_two_bundles13 =
     snd (snd (alvar_detect_marker13 demo_engine 3 (c_str ''RGB'') (c_str ''RGB'') (frame_of [2, 3, 7]) [3] 0.08 0.2
       (alvar_add_multi_marker demo_engine [3] ''calib.xml''
          (alvar_add_multi_marker demo_engine [7, 9] ''calib.xml''
             (snd (alvar_init_camera13 demo_engine None 640 480 demo_state13))))))"

definition demo_two_bundles15 ::
  "(string, int list \<times> demo_call list, int list \<times> bool, string list, nat) wrapper15_state" where
  "demo_two_bundles15 =
     snd (snd (alvar_detect_marker15 demo_engine 3 (c_str ''RGB'') (c_str ''RGB'') (frame_of [2, 3, 7]) [3] 0.08 0.2
       (alvar_add_multi_marker demo_engine [3] ''calib.xml''
          (alvar_add_multi_marker demo_engine [7, 9] ''calib.xml''
             (snd (alvar_init_camera15 demo_engine None 640 480 demo_state15))))))"

definition demo_second_detector15 ::
  "(string, int list \<times> demo_call list, int list \<times> bool, string list, nat) wrapper15_state" where
  "demo_second_detector15 =
     snd (snd (alvar_detect_marker15 demo_engine 3 (c_str ''RGB'') (c_str ''RGB'') (frame_of [2, 3, 7]) [3] 0.08 0.2
       (alvar_select_detector 1
          (alvar_set_detect_additional True
             (alvar_add_multi_marker demo_engine [3, 7] ''calib.xml''
                (snd (alvar_init_camera15 demo_engine None 640 480 demo_state15)))))))"

section \<open>Properties\<close>

text \<open>Unfolding rules for running the entry points on the small engine.\<close>

lemmas demo_simps = demo_engine_def demo_state13_def demo_state15_def frame_of_def fill_image_def
  blank_image_def

lemmas demo_run_simps = alvar_detect_marker13_def alvar_detect_marker15_def
  alvar_set_hide_texture_configuration_def alvar_init_camera13_def alvar_init_camera15_def
  alvar_add_multi_marker_def alvar_select_detector_def alvar_set_detect_additional_def
  active_detector_def demo_simps Let_def upt_rec

subsection \<open>Interest resolution\<close>

lemma idTable_fill_None:
  "idTable_fill E t i ms r = None \<longleftrightarrow> t r = None \<and> r \<notin> Marker_GetId E ` set ms"
  by (induction ms arbitrary: t i) auto

lemma idTable_fill_Some:
  "idTable_fill E t i ms r = Some k \<longleftrightarrow>
     (r \<notin> Marker_GetId E ` set ms \<and> t r = Some k) \<or>
     (i \<le> k \<and> k < i + length ms \<and> Marker_GetId E (ms ! (k - i)) = r \<and>
      (\<forall>j < length ms. Marker_GetId E (ms ! j) = r \<longrightarrow> j \<le> k - i))"
proof (induction ms arbitrary: t i)
  case Nil
  then show ?case by auto
next
  case (Cons m ms)
  have tail: "(\<forall>j < length (m # ms). Marker_GetId E ((m # ms) ! j) = r \<longrightarrow> j \<le> k - i) \<longleftrightarrow>
     (Marker_GetId E m = r \<longrightarrow> 0 \<le> k - i) \<and>
     (\<forall>j < length ms. Marker_GetId E (ms ! j) = r \<longrightarrow> Suc j \<le> k - i)"
    by (auto simp: nth_Cons' less_Suc_eq_0_disj)
  show ?case
  proof (cases "r \<in> Marker_GetId E ` set ms")
    case True
    then obtain j where j: "j < length ms" "Marker_GetId E (ms ! j) = r"
      by (auto simp: in_set_conv_nth)
    show ?thesis
      unfolding idTable_fill.simps Cons.IH tail using True j
      by (auto simp: nth_Cons' Suc_diff_le)
  next
    case False
    then have nf: "\<And>j. j < length ms \<Longrightarrow> Marker_GetId E (ms ! j) \<noteq> r"
      by (metis imageI nth_mem)
    show ?thesis
      unfolding idTable_fill.simps Cons.IH tail using False nf
      by (auto simp: nth_Cons')
  qed
qed

lemma idTable_fill_last_occurrence:
  "last_occurrence_table E ms (idTable_fill E Map.empty 0 ms)"
  unfolding last_occurrence_table_def idTable_fill_Some
  by (auto simp: in_set_conv_nth)

lemma interest_lookup_eq:
  "interest_lookup t rs found cnt =
     (found @ map (\<lambda>r. the (t r)) (filter (\<lambda>r. t r \<noteq> None) rs),
      cnt + int (length (filter (\<lambda>r. t r \<noteq> None) rs)))"
  by (induction rs arbitrary: found cnt) (auto split: option.splits)

lemma resolve_interest_resolved:
  assumes L: "interest_lookup (idTable_fill E Map.empty 0 ms) req [] 0 = (found, cnt)"
  shows "interest_resolved E ms req found cnt"
proof -
  let ?t = "idTable_fill E Map.empty 0 ms"
  let ?hit = "\<lambda>r. ?t r \<noteq> None"
  let ?ix = "\<lambda>r. the (?t r)"
  have found: "found = map ?ix (filter ?hit req)"
    and cnt: "cnt = int (length (filter ?hit req))"
    using L by (simp_all add: interest_lookup_eq)
  have dom: "?hit r \<longleftrightarrow> r \<in> Marker_GetId E ` set ms" for r
    by (simp add: idTable_fill_None)
  have val: "?ix r < length ms \<and> Marker_GetId E (ms ! ?ix r) = r" if "?hit r" for r
  proof -
    from that obtain k where k: "?t r = Some k" by auto
    then have "k < length ms \<and> Marker_GetId E (ms ! k) = r"
      by (auto simp: idTable_fill_Some)
    with k show ?thesis by simp
  qed
  have ids: "map (\<lambda>k. Marker_GetId E (ms ! k)) found = filter (\<lambda>r. r \<in> Marker_GetId E ` set ms) req"
  proof -
    have "map (\<lambda>k. Marker_GetId E (ms ! k)) (map ?ix (filter ?hit req)) = filter ?hit req"
      unfolding map_map comp_def by (rule map_idI) (use val in \<open>simp del: not_None_eq\<close>)
    also have "\<dots> = filter (\<lambda>r. r \<in> Marker_GetId E ` set ms) req"
      by (rule filter_cong [OF refl]) (rule dom)
    finally show ?thesis by (simp only: found)
  qed
  have range: "\<forall>k \<in> set found. k < length ms"
  proof
    fix k assume "k \<in> set found"
    then obtain r where "?hit r" "k = ?ix r"
      unfolding found by auto
    with val [of r] show "k < length ms" by blast
  qed
  have inj: "inj_on ?ix (set (filter ?hit req))"
  proof (rule inj_onI)
    fix a b assume "a \<in> set (filter ?hit req)" "b \<in> set (filter ?hit req)" "?ix a = ?ix b"
    then have "?hit a" "?hit b" "?ix a = ?ix b" by simp_all
    with val [of a] val [of b] show "a = b" by metis
  qed
  have len: "cnt = int (length found)"
    by (simp only: found cnt length_map)
  have le: "cnt \<le> int (length req)"
    by (simp add: cnt)
  have bound: "cnt \<le> int (length ms)" if "distinct req"
  proof -
    from that have "distinct (filter ?hit req)" by (rule distinct_filter)
    with inj have "distinct found"
      by (simp add: found distinct_map)
    then have "length found = card (set found)"
      by (simp add: distinct_card)
    also have "\<dots> \<le> card {0..<length ms}"
      by (rule card_mono) (use range in auto)
    finally show ?thesis by (simp add: len)
  qed
  show ?thesis
    unfolding interest_resolved_def
    using ids range len le bound by blast
qed

lemma interest_resolved_pair:
  "interest_resolved E ms req
     (fst (interest_lookup (idTable_fill E Map.empty 0 ms) req [] 0))
     (snd (interest_lookup (idTable_fill E Map.empty 0 ms) req [] 0))"
  by (rule resolve_interest_resolved) simp

lemma interest_resolved_nothing:
  "ms = [] \<or> req = [] \<Longrightarrow> interest_resolved E ms req [] 0"
  by (auto simp: interest_resolved_def)

lemma detect_marker_records_maxTrackError:
  "curMaxTrackError (snd (snd (alvar_detect_marker13 E nCh cModel chSeq data req mme mte s))) = mte \<and>
   curMaxTrackError (snd (snd (alvar_detect_marker15 E nCh cModel chSeq data req mme mte s15))) = mte"
  by (simp add: alvar_detect_marker13_def alvar_detect_marker15_def Let_def split_beta)

subsection \<open>The pixel loops\<close>




lemma copy_texture_swapped_terminates:
  assumes "0 < unat chans"
  shows "\<exists>r. copy_texture_swapped chans hts src j ti out = Some r"
proof (induction "unat hts - j" arbitrary: j ti out rule: less_induct)
  case less
  show ?case
  proof (cases "j < unat hts")
    case True
    then have "unat hts - (j + unat chans) < unat hts - j"
      using assms by arith
    from less.hyps [OF this] show ?thesis
      by (subst copy_texture_swapped.simps) (simp add: True)
  next
    case False
    then show ?thesis
      by (subst copy_texture_swapped.simps) simp
  qed
qed




lemma copy_texture_swapped_total:
  "0 < unat chans \<or> hts = 0 \<Longrightarrow> \<exists>r. copy_texture_swapped chans hts src j ti out = Some r"
proof (cases "0 < unat chans")
  case True
  then show ?thesis by (rule copy_texture_swapped_terminates)
next
  case False
  assume "0 < unat chans \<or> hts = 0"
  with False have "hts = 0" by simp
  then show ?thesis by (subst copy_texture_swapped.simps) simp
qed

lemma hide_texture_block_Inr:
  assumes "hide_texture_block E copy mat s tex ti = Some (Inr (s', tex', ti'))"
  shows "\<exists>t'. s' = s\<lparr>hide_texture := Some t'\<rparr>"
  using assms by (auto simp: hide_texture_block_def Let_def split: option.splits)

lemma hide_texture_block_swapped_eq:
  assumes "hide_texture s \<noteq> None" "channels s \<noteq> 0 \<or> hide_texture_size s = 0"
  shows "hide_texture_block E copy_texture_swapped mat s tex ti =
    Some (Inr (s\<lparr>hide_texture := Some (BuildHideTexture E (image_g s) (the (hide_texture s)) (cam s)
                  mat (- margin s, - margin s) (margin s, margin s))\<rparr>,
      the (copy_texture_swapped (channels s) (hide_texture_size s)
        (imageData (BuildHideTexture E (image_g s) (the (hide_texture s)) (cam s)
                  mat (- margin s, - margin s) (margin s, margin s))) 0 ti tex)))"
proof -
  from assms(1) obtain t where t: "hide_texture s = Some t" by auto
  let ?t' = "BuildHideTexture E (image_g s) t (cam s) mat (- margin s, - margin s) (margin s, margin s)"
  from assms(2) have "0 < unat (channels s) \<or> hide_texture_size s = 0"
    by (simp add: unat_gt_0)
  from copy_texture_swapped_total [OF this] obtain r where
    "copy_texture_swapped (channels s) (hide_texture_size s) (imageData ?t') 0 ti tex = Some r"
    by blast
  then show ?thesis by (simp add: hide_texture_block_def t split_beta)
qed

subsection \<open>The bundle loop\<close>

lemma multi_marker_step13_Inr:
  assumes "multi_marker_step13 E rht i (s, ids, pm, er, tex, ti) = Some (Inr (s', ids', pm', er', tex', ti'))"
  shows "ids' = ids(i := int i) \<and> length (multiMarkers s') = length (multiMarkers s) \<and>
    channels s' = channels s \<and> hide_texture_size s' = hide_texture_size s \<and>
    (hide_texture s \<noteq> None \<longrightarrow> hide_texture s' \<noteq> None)"
  using assms
  by (auto simp: multi_marker_step13_def bundle_update13_def Let_def split_beta
      dest!: hide_texture_block_Inr split: if_splits option.splits sum.splits)

lemma multi_marker_step15_Inr:
  assumes "multi_marker_step15 E rht i (s, ids, pm, er, tex, ti) = Some (Inr (s', ids', pm', er', tex', ti'))"
  shows "ids' = ids(i := int i) \<and> length (multiMarkers s') = length (multiMarkers s) \<and>
    channels s' = channels s \<and> hide_texture_size s' = hide_texture_size s \<and>
    (hide_texture s \<noteq> None \<longrightarrow> hide_texture s' \<noteq> None)"
  using assms
  by (auto simp: multi_marker_step15_def bundle_update15_def Let_def split_beta
      dest!: hide_texture_block_Inr split: if_splits option.splits sum.splits)

lemma multi_marker_step13_total:
  assumes "textures_ready rht s"
  shows "\<exists>r. multi_marker_step13 E rht i (s, ids, pm, er, tex, ti) = Some (Inr r)"
proof (cases rht)
  case False
  then show ?thesis by (simp add: multi_marker_step13_def bundle_update13_def Let_def split_beta)
next
  case True
  with assms have r: "hide_texture s \<noteq> None" "channels s \<noteq> 0 \<or> hide_texture_size s = 0"
    by (simp_all add: textures_ready_def)
  show ?thesis
    using True r
    by (simp add: multi_marker_step13_def bundle_update13_def Let_def split_beta hide_texture_block_swapped_eq)
qed

lemma multi_marker_step15_total:
  assumes "textures_ready rht s"
  shows "\<exists>r. multi_marker_step15 E rht i (s, ids, pm, er, tex, ti) = Some (Inr r)"
proof (cases rht)
  case False
  then show ?thesis by (simp add: multi_marker_step15_def bundle_update15_def Let_def split_beta)
next
  case True
  with assms have r: "hide_texture s \<noteq> None" "channels s \<noteq> 0 \<or> hide_texture_size s = 0"
    by (simp_all add: textures_ready_def)
  show ?thesis
    using True r
    by (simp add: multi_marker_step15_def bundle_update15_def Let_def split_beta hide_texture_block_swapped_eq)
qed

lemma for_indices_total:
  assumes step: "\<And>i st. I st \<Longrightarrow> \<exists>st'. body i st = Some (Inr st') \<and> I st'"
  shows "I st \<Longrightarrow> \<exists>st'. for_indices body is st = Some (Inr st') \<and> I st'"
proof (induction "is" arbitrary: st)
  case Nil
  then show ?case by simp
next
  case (Cons i "is")
  from step [OF Cons.prems] obtain st1 where s1: "body i st = Some (Inr st1)" "I st1" by blast
  from Cons.IH [OF s1(2)] s1(1) show ?case by simp
qed

lemma for_indices_slots:
  assumes step: "\<And>i st st'. body i st = Some (Inr st') \<Longrightarrow> g st' = (g st)(i := int i)"
  shows "for_indices body is st = Some (Inr st') \<Longrightarrow>
    g st' k = (if k \<in> set is then int k else g st k)"
proof (induction "is" arbitrary: st)
  case Nil
  then show ?case by simp
next
  case (Cons i "is")
  from Cons.prems obtain st1 where s1: "body i st = Some (Inr st1)"
    and r: "for_indices body is st1 = Some (Inr st')"
    by (auto split: option.splits sum.splits)
  from Cons.IH [OF r] step [OF s1] show ?case by simp
qed

lemma textures_ready_step13:
  assumes "multi_marker_step13 E rht i (s, ids, pm, er, tex, ti) = Some (Inr (s', ids', pm', er', tex', ti'))"
    and "textures_ready rht s"
  shows "textures_ready rht s'"
  using multi_marker_step13_Inr [OF assms(1)] assms(2) by (simp add: textures_ready_def)

lemma textures_ready_step15:
  assumes "multi_marker_step15 E rht i (s, ids, pm, er, tex, ti) = Some (Inr (s', ids', pm', er', tex', ti'))"
    and "textures_ready rht s"
  shows "textures_ready rht s'"
  using multi_marker_step15_Inr [OF assms(1)] assms(2) by (simp add: textures_ready_def)

lemma multi_marker_step13_inv:
  assumes a: "textures_ready rht (fst st)"
  shows "\<exists>st'. multi_marker_step13 E rht i st = Some (Inr st') \<and> textures_ready rht (fst st')"
proof -
  obtain s0 ids0 pm0 er0 tex0 ti0 where st: "st = (s0, ids0, pm0, er0, tex0, ti0)"
    by (cases st) auto
  from a st multi_marker_step13_total [of rht s0 E i ids0 pm0 er0 tex0 ti0]
  obtain r where r: "multi_marker_step13 E rht i st = Some (Inr r)" by auto
  obtain s1 ids1 pm1 er1 tex1 ti1 where r1: "r = (s1, ids1, pm1, er1, tex1, ti1)"
    by (cases r) auto
  from textures_ready_step13 [OF r [unfolded st r1]] a st
  have "textures_ready rht (fst r)" by (simp add: r1)
  with r show ?thesis by blast
qed

lemma multi_marker_step15_inv:
  assumes a: "textures_ready rht (fst st)"
  shows "\<exists>st'. multi_marker_step15 E rht i st = Some (Inr st') \<and> textures_ready rht (fst st')"
proof -
  obtain s0 ids0 pm0 er0 tex0 ti0 where st: "st = (s0, ids0, pm0, er0, tex0, ti0)"
    by (cases st) auto
  from a st multi_marker_step15_total [of rht s0 E i ids0 pm0 er0 tex0 ti0]
  obtain r where r: "multi_marker_step15 E rht i st = Some (Inr r)" by auto
  obtain s1 ids1 pm1 er1 tex1 ti1 where r1: "r = (s1, ids1, pm1, er1, tex1, ti1)"
    by (cases r) auto
  from textures_ready_step15 [OF r [unfolded st r1]] a st
  have "textures_ready rht (fst r)" by (simp add: r1)
  with r show ?thesis by blast
qed

lemma multi_marker_loop13_total:
  assumes "textures_ready rht s"
  shows "\<exists>r. for_indices (multi_marker_step13 E rht) is (s, ids, pm, er, tex, ti) = Some (Inr r)"
  using for_indices_total [where I = "\<lambda>st. textures_ready rht (fst st)"
      and body = "multi_marker_step13 E rht" and st = "(s, ids, pm, er, tex, ti)" and ?is = "is",
      OF multi_marker_step13_inv] assms
  by auto

lemma multi_marker_loop15_total:
  assumes "textures_ready rht s"
  shows "\<exists>r. for_indices (multi_marker_step15 E rht) is (s, ids, pm, er, tex, ti) = Some (Inr r)"
  using for_indices_total [where I = "\<lambda>st. textures_ready rht (fst st)"
      and body = "multi_marker_step15 E rht" and st = "(s, ids, pm, er, tex, ti)" and ?is = "is",
      OF multi_marker_step15_inv] assms
  by auto

lemma multi_marker_loop13_ids:
  assumes "for_indices (multi_marker_step13 E rht) is (s, ids, pm, er, tex, ti) =
      Some (Inr (s', ids', pm', er', tex', ti'))"
  shows "ids' k = (if k \<in> set is then int k else ids k)"
proof -
  have step: "(fst \<circ> snd) st' = ((fst \<circ> snd) st)(i := int i)"
    if "multi_marker_step13 E rht i st = Some (Inr st')" for i st st'
    using that multi_marker_step13_Inr [of E rht i "fst st" "fst (snd st)"]
    by (cases st; cases st') auto
  from for_indices_slots [where g = "fst \<circ> snd" and body = "multi_marker_step13 E rht", OF step assms]
  show ?thesis by simp
qed

lemma multi_marker_loop15_ids:
  assumes "for_indices (multi_marker_step15 E rht) is (s, ids, pm, er, tex, ti) =
      Some (Inr (s', ids', pm', er', tex', ti'))"
  shows "ids' k = (if k \<in> set is then int k else ids k)"
proof -
  have step: "(fst \<circ> snd) st' = ((fst \<circ> snd) st)(i := int i)"
    if "multi_marker_step15 E rht i st = Some (Inr st')" for i st st'
    using that multi_marker_step15_Inr [of E rht i "fst st" "fst (snd st)"]
    by (cases st; cases st') auto
  from for_indices_slots [where g = "fst \<circ> snd" and body = "multi_marker_step15 E rht", OF step assms]
  show ?thesis by simp
qed

lemma for_indices_frame:
  assumes step: "\<And>i st st'. body i st = Some (Inr st') \<Longrightarrow> \<forall>k. k \<noteq> i \<longrightarrow> g st' k = g st k"
  shows "for_indices body is st = Some (Inr st') \<Longrightarrow> k \<notin> set is \<Longrightarrow> g st' k = g st k"
proof (induction "is" arbitrary: st)
  case Nil
  then show ?case by simp
next
  case (Cons i "is")
  from Cons.prems obtain st1 where s1: "body i st = Some (Inr st1)"
    and r: "for_indices body is st1 = Some (Inr st')"
    by (auto split: option.splits sum.splits)
  from Cons.prems(2) have "k \<notin> set is" "k \<noteq> i" by auto
  from Cons.IH [OF r this(1)] step [OF s1] this(2) show ?case by simp
qed

lemma multi_marker_step13_plain:
  assumes "multi_marker_step13 E rht i (s, ids, pm, er, tex, ti) = Some (Inr (s', ids', pm', er', tex', ti'))"
    and "\<not> detect_additional s"
  shows "er' = er(i := fst (MultiMarker_Update E (Detector_markers E (markerDetector s)) (cam s)
             (Pose_new E) (multiMarkers s ! i))) \<and>
    multiMarkers s' = (multiMarkers s)[i := snd (snd (MultiMarker_Update E
       (Detector_markers E (markerDetector s)) (cam s) (Pose_new E) (multiMarkers s ! i)))] \<and>
    markerDetector s' = markerDetector s \<and> cam s' = cam s \<and> \<not> detect_additional s'"
  using assms
  by (auto simp: multi_marker_step13_def bundle_update13_def Let_def split_beta
      dest!: hide_texture_block_Inr split: if_splits option.splits sum.splits)

lemma multi_marker_step13_errors_frame:
  assumes "multi_marker_step13 E rht i (s, ids, pm, er, tex, ti) = Some (Inr (s', ids', pm', er', tex', ti'))"
  shows "\<forall>k. k \<noteq> i \<longrightarrow> er' k = er k"
  using assms
  by (auto simp: multi_marker_step13_def bundle_update13_def Let_def split_beta
      dest!: hide_texture_block_Inr split: if_splits option.splits sum.splits)

lemma multi_marker_loop13_plain:
  "for_indices (multi_marker_step13 E rht) is (s, ids, pm, er, tex, ti) =
      Some (Inr (s', ids', pm', er', tex', ti')) \<Longrightarrow>
   \<not> detect_additional s \<Longrightarrow> distinct is \<Longrightarrow> k \<in> set is \<Longrightarrow>
   er' k = fst (MultiMarker_Update E (Detector_markers E (markerDetector s)) (cam s)
             (Pose_new E) (multiMarkers s ! k))"
proof (induction "is" arbitrary: s ids pm er tex ti)
  case Nil
  then show ?case by simp
next
  case (Cons i "is")
  from Cons.prems(1) obtain s1 ids1 pm1 er1 tex1 ti1 where
    s1: "multi_marker_step13 E rht i (s, ids, pm, er, tex, ti) = Some (Inr (s1, ids1, pm1, er1, tex1, ti1))"
    and r: "for_indices (multi_marker_step13 E rht) is (s1, ids1, pm1, er1, tex1, ti1) =
      Some (Inr (s', ids', pm', er', tex', ti'))"
    by (auto split: option.splits sum.splits)
  note p = multi_marker_step13_plain [OF s1 Cons.prems(2)]
  from Cons.prems(3) have d: "distinct is" "i \<notin> set is" by auto
  show ?case
  proof (cases "k = i")
    case True
    have step: "\<forall>k. k \<noteq> j \<longrightarrow>
        (fst \<circ> snd \<circ> snd \<circ> snd) st' k = (fst \<circ> snd \<circ> snd \<circ> snd) st k"
      if "multi_marker_step13 E rht j st = Some (Inr st')" for j st st'
      using that multi_marker_step13_errors_frame [of E rht j "fst st" "fst (snd st)"]
      by (cases st; cases st') auto
    from for_indices_frame [where g = "fst \<circ> snd \<circ> snd \<circ> snd"
        and body = "multi_marker_step13 E rht", OF step r d(2)]
    have "er' i = er1 i" by simp
    with p True show ?thesis by simp
  next
    case False
    with Cons.prems(4) have "k \<in> set is" by simp
    from Cons.IH [OF r _ d(1) this] p False show ?thesis by simp
  qed
qed

lemma multi_marker_step15_plain:
  assumes "multi_marker_step15 E rht i (s, ids, pm, er, tex, ti) = Some (Inr (s', ids', pm', er', tex', ti'))"
    and "\<not> detect_additional s"
  shows "er' = er(i := fst (MultiMarker_Update E (Detector_markers E (active_detector s)) (cam s)
             (Pose_new E) (multiMarkers s ! i))) \<and>
    multiMarkers s' = (multiMarkers s)[i := snd (snd (MultiMarker_Update E
       (Detector_markers E (active_detector s)) (cam s) (Pose_new E) (multiMarkers s ! i)))] \<and>
    active_detector s' = active_detector s \<and> cam s' = cam s \<and> \<not> detect_additional s'"
  using assms
  by (auto simp: multi_marker_step15_def bundle_update15_def active_detector_def Let_def split_beta
      dest!: hide_texture_block_Inr split: if_splits option.splits sum.splits)

lemma multi_marker_step15_errors_frame:
  assumes "multi_marker_step15 E rht i (s, ids, pm, er, tex, ti) = Some (Inr (s', ids', pm', er', tex', ti'))"
  shows "\<forall>k. k \<noteq> i \<longrightarrow> er' k = er k"
  using assms
  by (auto simp: multi_marker_step15_def bundle_update15_def Let_def split_beta
      dest!: hide_texture_block_Inr split: if_splits option.splits sum.splits)

lemma multi_marker_loop15_plain:
  "for_indices (multi_marker_step15 E rht) is (s, ids, pm, er, tex, ti) =
      Some (Inr (s', ids', pm', er', tex', ti')) \<Longrightarrow>
   \<not> detect_additional s \<Longrightarrow> distinct is \<Longrightarrow> k \<in> set is \<Longrightarrow>
   er' k = fst (MultiMarker_Update E (Detector_markers E (active_detector s)) (cam s)
             (Pose_new E) (multiMarkers s ! k))"
proof (induction "is" arbitrary: s ids pm er tex ti)
  case Nil
  then show ?case by simp
next
  case (Cons i "is")
  from Cons.prems(1) obtain s1 ids1 pm1 er1 tex1 ti1 where
    s1: "multi_marker_step15 E rht i (s, ids, pm, er, tex, ti) = Some (Inr (s1, ids1, pm1, er1, tex1, ti1))"
    and r: "for_indices (multi_marker_step15 E rht) is (s1, ids1, pm1, er1, tex1, ti1) =
      Some (Inr (s', ids', pm', er', tex', ti'))"
    by (auto split: option.splits sum.splits)
  note p = multi_marker_step15_plain [OF s1 Cons.prems(2)]
  from Cons.prems(3) have d: "distinct is" "i \<notin> set is" by auto
  show ?case
  proof (cases "k = i")
    case True
    have step: "\<forall>k. k \<noteq> j \<longrightarrow>
        (fst \<circ> snd \<circ> snd \<circ> snd) st' k = (fst \<circ> snd \<circ> snd \<circ> snd) st k"
      if "multi_marker_step15 E rht j st = Some (Inr st')" for j st st'
      using that multi_marker_step15_errors_frame [of E rht j "fst st" "fst (snd st)"]
      by (cases st; cases st') auto
    from for_indices_frame [where g = "fst \<circ> snd \<circ> snd \<circ> snd"
        and body = "multi_marker_step15 E rht", OF step r d(2)]
    have "er' i = er1 i" by simp
    with p True show ?thesis by simp
  next
    case False
    with Cons.prems(4) have "k \<in> set is" by simp
    from Cons.IH [OF r _ d(1) this] p False show ?thesis by simp
  qed
qed

lemma multi_marker_step13_detect_additional:
  assumes "detect_additional s" and "i < length (multiMarkers s)"
  shows "multi_marker_step13 E False i (s, ids, pm, er, tex, ti) =
    (case MultiMarker_Update E (Detector_markers E (markerDetector s)) (cam s) (Pose_new E)
            (multiMarkers s ! i) of
       (e, p, m) \<Rightarrow>
         (case MultiMarker_SetTrackMarkers E (markerDetector s) (cam s) p m of
            (d, p', m') \<Rightarrow>
              (let d' = Detector_DetectAdditional E (image_g s) (cam s) False (curMaxTrackError s) d
               in case MultiMarker_Update E (Detector_markers E d') (cam s) p' m' of
                    (e2, p2, m2) \<Rightarrow>
                      Some (Inr (s\<lparr>markerDetector := d', multiMarkers := (multiMarkers s)[i := m2]\<rparr>,
                        ids(i := int i), memcpy_doubles pm (i * 16) (Pose_GetMatrixGL E p2) 16,
                        er(i := e2), tex, ti)))))"
  using assms by (simp add: multi_marker_step13_def bundle_update13_def Let_def split_beta)

lemma multi_marker_step15_detect_additional_first:
  assumes "detect_additional s" and "i < length (multiMarkers s)" and "detector_id s = 0"
  shows "multi_marker_step15 E False i (s, ids, pm, er, tex, ti) =
    (case MultiMarker_Update E (Detector_markers E (active_detector s)) (cam s) (Pose_new E)
            (multiMarkers s ! i) of
       (e, p, m) \<Rightarrow>
         (case MultiMarker_SetTrackMarkers E (active_detector s) (cam s) p m of
            (d, p', m') \<Rightarrow>
              (let d' = Detector_DetectAdditional E (image_g s) (cam s) False (curMaxTrackError s) d
               in case MultiMarker_Update E (Detector_markers E d') (cam s) p' m' of
                    (e2, p2, m2) \<Rightarrow>
                      Some (Inr (s\<lparr>markerDetector := d', multiMarkers := (multiMarkers s)[i := m2]\<rparr>,
                        ids(i := int i), memcpy_doubles pm (i * 16) (Pose_GetMatrixGL E p2) 16,
                        er(i := e2), tex, ti)))))"
  using assms by (simp add: multi_marker_step15_def bundle_update15_def active_detector_def Let_def split_beta)

lemma multi_marker_step15_detect_additional_second:
  assumes "detect_additional s" and "i < length (multiMarkers s)" and "detector_id s \<noteq> 0"
  shows "multi_marker_step15 E False i (s, ids, pm, er, tex, ti) =
    (case MultiMarker_Update E (Detector_markers E (markerDetector s)) (cam s) (Pose_new E)
            (multiMarkers s ! i) of
       (e, p, m) \<Rightarrow>
         (case MultiMarker_SetTrackMarkers E (markerDetector s) (cam s) p m of
            (d, p', m') \<Rightarrow>
              (let d' = Detector_DetectAdditional E (image_g s) (cam s) False (curMaxTrackError s) d
               in case MultiMarker_Update E (Detector_markers E (active_detector s)) (cam s) p' m' of
                    (e2, p2, m2) \<Rightarrow>
                      Some (Inr (s\<lparr>markerDetector := d', multiMarkers := (multiMarkers s)[i := m2]\<rparr>,
                        ids(i := int i), memcpy_doubles pm (i * 16) (Pose_GetMatrixGL E p2) 16,
                        er(i := e2), tex, ti)))))"
  using assms by (simp add: multi_marker_step15_def bundle_update15_def active_detector_def Let_def split_beta)

subsection \<open>The two pose paths\<close>






subsection \<open>Registration order\<close>

lemma for_indices_append:
  "for_indices body (xs @ ys) st =
     (case for_indices body xs st of
        None \<Rightarrow> None
      | Some (Inl f) \<Rightarrow> Some (Inl f)
      | Some (Inr st') \<Rightarrow> for_indices body ys st')"
  by (induction xs arbitrary: st) (auto split: option.splits sum.splits)

lemma in_registration_order_for_indices:
  "in_registration_order body n st = for_indices body [0..<n] st"
proof (induction n)
  case 0
  then show ?case by simp
next
  case (Suc n)
  have "for_indices body [0..<Suc n] st = for_indices body ([0..<n] @ [n]) st" by simp
  also have "\<dots> = in_registration_order body (Suc n) st"
    unfolding for_indices_append Suc.IH [symmetric]
    by (auto split: option.splits sum.splits)
  finally show ?case by simp
qed

lemma for_indices_frame_keyed:
  assumes step: "\<And>i st st'. body i st = Some (Inr st') \<Longrightarrow> \<forall>x. key x \<noteq> i \<longrightarrow> g st' x = g st x"
  shows "for_indices body is st = Some (Inr st') \<Longrightarrow> key x \<notin> set is \<Longrightarrow> g st' x = g st x"
proof (induction "is" arbitrary: st)
  case Nil
  then show ?case by simp
next
  case (Cons i "is")
  from Cons.prems obtain st1 where s1: "body i st = Some (Inr st1)"
    and r: "for_indices body is st1 = Some (Inr st')"
    by (auto split: option.splits sum.splits)
  from Cons.prems(2) have "key x \<notin> set is" "key x \<noteq> i" by auto
  from Cons.IH [OF r this(1)] step [OF s1] this(2) show ?case by simp
qed

lemma memcpy_doubles_other_block:
  "k \<noteq> i \<Longrightarrow> j < 16 \<Longrightarrow> memcpy_doubles pm (i * 16) mat 16 (k * 16 + j) = pm (k * 16 + j)"
  by (auto simp: memcpy_doubles_def)

lemma memcpy_doubles_own_block:
  "j < 16 \<Longrightarrow> memcpy_doubles pm (i * 16) mat 16 (i * 16 + j) = mat j"
  by (simp add: memcpy_doubles_def)

lemma multi_marker_step13_poses:
  assumes "multi_marker_step13 E rht i (s, ids, pm, er, tex, ti) = Some (Inr (s', ids', pm', er', tex', ti'))"
    and "\<not> detect_additional s"
  shows "pm' = memcpy_doubles pm (i * 16) (Pose_GetMatrixGL E (fst (snd (MultiMarker_Update E
       (Detector_markers E (markerDetector s)) (cam s) (Pose_new E) (multiMarkers s ! i))))) 16"
  using assms
  by (auto simp: multi_marker_step13_def bundle_update13_def Let_def split_beta
      dest!: hide_texture_block_Inr split: if_splits option.splits sum.splits)

lemma multi_marker_step13_frame:
  assumes "multi_marker_step13 E rht i (s, ids, pm, er, tex, ti) = Some (Inr (s', ids', pm', er', tex', ti'))"
  shows "\<forall>k. k \<noteq> i \<longrightarrow> multiMarkers s' ! k = multiMarkers s ! k"
    and "\<forall>x. fst x \<noteq> i \<longrightarrow> snd x < 16 \<longrightarrow> pm' (fst x * 16 + snd x) = pm (fst x * 16 + snd x)"
  using assms
  by (auto simp: multi_marker_step13_def bundle_update13_def Let_def split_beta memcpy_doubles_other_block
      dest!: hide_texture_block_Inr split: if_splits option.splits sum.splits)


lemma multi_marker_loop13_length:
  "for_indices (multi_marker_step13 E rht) is (s, ids, pm, er, tex, ti) =
      Some (Inr (s', ids', pm', er', tex', ti')) \<Longrightarrow>
   length (multiMarkers s') = length (multiMarkers s)"
proof (induction "is" arbitrary: s ids pm er tex ti)
  case Nil
  then show ?case by simp
next
  case (Cons i "is")
  from Cons.prems(1) obtain s1 ids1 pm1 er1 tex1 ti1 where
    s1: "multi_marker_step13 E rht i (s, ids, pm, er, tex, ti) = Some (Inr (s1, ids1, pm1, er1, tex1, ti1))"
    and r: "for_indices (multi_marker_step13 E rht) is (s1, ids1, pm1, er1, tex1, ti1) =
      Some (Inr (s', ids', pm', er', tex', ti'))"
    by (auto split: option.splits sum.splits)
  from Cons.IH [OF r] multi_marker_step13_Inr [OF s1] show ?case by simp
qed

lemma multi_marker_loop13_bundles:
  "for_indices (multi_marker_step13 E rht) is (s, ids, pm, er, tex, ti) =
      Some (Inr (s', ids', pm', er', tex', ti')) \<Longrightarrow>
   \<not> detect_additional s \<Longrightarrow> distinct is \<Longrightarrow> \<forall>i \<in> set is. i < length (multiMarkers s) \<Longrightarrow>
   k \<in> set is \<Longrightarrow>
   multiMarkers s' ! k = snd (snd (MultiMarker_Update E (Detector_markers E (markerDetector s))
      (cam s) (Pose_new E) (multiMarkers s ! k))) \<and>
   (\<forall>j < 16. pm' (k * 16 + j) = Pose_GetMatrixGL E (fst (snd (MultiMarker_Update E
      (Detector_markers E (markerDetector s)) (cam s) (Pose_new E) (multiMarkers s ! k)))) j)"
proof (induction "is" arbitrary: s ids pm er tex ti)
  case Nil
  then show ?case by simp
next
  case (Cons i "is")
  from Cons.prems(1) obtain s1 ids1 pm1 er1 tex1 ti1 where
    s1: "multi_marker_step13 E rht i (s, ids, pm, er, tex, ti) = Some (Inr (s1, ids1, pm1, er1, tex1, ti1))"
    and r: "for_indices (multi_marker_step13 E rht) is (s1, ids1, pm1, er1, tex1, ti1) =
      Some (Inr (s', ids', pm', er', tex', ti'))"
    by (auto split: option.splits sum.splits)
  note p = multi_marker_step13_plain [OF s1 Cons.prems(2)]
  note q = multi_marker_step13_poses [OF s1 Cons.prems(2)]
  note l = multi_marker_step13_Inr [OF s1]
  from Cons.prems(3) have d: "distinct is" "i \<notin> set is" by auto
  from Cons.prems(4) have il: "i < length (multiMarkers s)" by simp
  from Cons.prems(4) l have b: "\<forall>i \<in> set is. i < length (multiMarkers s1)" by simp
  show ?case
  proof (cases "k = i")
    case True
    have stepm: "\<forall>x. x \<noteq> j \<longrightarrow> multiMarkers (fst st') ! x = multiMarkers (fst st) ! x"
      if "multi_marker_step13 E rht j st = Some (Inr st')" for j st st'
      using that multi_marker_step13_frame(1) [of E rht j "fst st" "fst (snd st)"]
      by (cases st; cases st') auto
    have stepp: "\<forall>x. fst x \<noteq> j \<longrightarrow>
        (if snd x < 16 then (fst (snd (snd st'))) (fst x * 16 + snd x) else 0) =
        (if snd x < 16 then (fst (snd (snd st))) (fst x * 16 + snd x) else 0)"
      if "multi_marker_step13 E rht j st = Some (Inr st')" for j st st'
      using that multi_marker_step13_frame(2) [of E rht j "fst st" "fst (snd st)"]
      by (cases st; cases st') auto
    from for_indices_frame_keyed [where key = "\<lambda>x. x" and g = "\<lambda>st x. multiMarkers (fst st) ! x"
        and body = "multi_marker_step13 E rht", OF stepm r, of i] d(2)
    have m: "multiMarkers s' ! i = multiMarkers s1 ! i" by simp
    have pm: "pm' (i * 16 + j) = pm1 (i * 16 + j)" if "j < 16" for j
      using for_indices_frame_keyed [where key = fst
        and g = "\<lambda>st x. if snd x < 16 then (fst (snd (snd st))) (fst x * 16 + snd x) else 0"
        and body = "multi_marker_step13 E rht", OF stepp r, of "(i, j)"] d(2) that
      by simp
    from m pm p q il True show ?thesis
      by (simp add: memcpy_doubles_own_block)
  next
    case False
    with Cons.prems(5) have "k \<in> set is" by simp
    from Cons.IH [OF r _ d(1) b this] p False show ?thesis by simp
  qed
qed

lemma multi_marker_loop13_frame:
  assumes r: "for_indices (multi_marker_step13 E rht) is (s1, ids1, pm1, er1, tex1, ti1) =
      Some (Inr (s', ids', pm', er', tex', ti'))"
    and i: "i \<notin> set is"
  shows "er' i = er1 i \<and> multiMarkers s' ! i = multiMarkers s1 ! i \<and>
    (\<forall>j < 16. pm' (i * 16 + j) = pm1 (i * 16 + j))"
proof -
  have stepe: "\<forall>k. k \<noteq> j \<longrightarrow>
      (fst \<circ> snd \<circ> snd \<circ> snd) st' k = (fst \<circ> snd \<circ> snd \<circ> snd) st k"
    if "multi_marker_step13 E rht j st = Some (Inr st')" for j st st'
    using that multi_marker_step13_errors_frame [of E rht j "fst st" "fst (snd st)"]
    by (cases st; cases st') auto
  have stepm: "\<forall>x. x \<noteq> j \<longrightarrow> multiMarkers (fst st') ! x = multiMarkers (fst st) ! x"
    if "multi_marker_step13 E rht j st = Some (Inr st')" for j st st'
    using that multi_marker_step13_frame(1) [of E rht j "fst st" "fst (snd st)"]
    by (cases st; cases st') auto
  have stepp: "\<forall>x. fst x \<noteq> j \<longrightarrow>
      (if snd x < 16 then (fst (snd (snd st'))) (fst x * 16 + snd x) else 0) =
      (if snd x < 16 then (fst (snd (snd st))) (fst x * 16 + snd x) else 0)"
    if "multi_marker_step13 E rht j st = Some (Inr st')" for j st st'
    using that multi_marker_step13_frame(2) [of E rht j "fst st" "fst (snd st)"]
    by (cases st; cases st') auto
  from for_indices_frame [where g = "fst \<circ> snd \<circ> snd \<circ> snd"
      and body = "multi_marker_step13 E rht", OF stepe r i]
  have e: "er' i = er1 i" by simp
  from for_indices_frame_keyed [where key = "\<lambda>x. x" and g = "\<lambda>st x. multiMarkers (fst st) ! x"
      and body = "multi_marker_step13 E rht", OF stepm r, of i] i
  have m: "multiMarkers s' ! i = multiMarkers s1 ! i" by simp
  have p: "pm' (i * 16 + j) = pm1 (i * 16 + j)" if "j < 16" for j
    using for_indices_frame_keyed [where key = fst
      and g = "\<lambda>st x. if snd x < 16 then (fst (snd (snd st))) (fst x * 16 + snd x) else 0"
      and body = "multi_marker_step13 E rht", OF stepp r, of "(i, j)"] i that
    by simp
  from e m p show ?thesis by blast
qed

lemma multi_marker_step13_round:
  assumes "multi_marker_step13 E rht i (s, ids, pm, er, tex, ti) = Some (Inr (s', ids', pm', er', tex', ti'))"
  shows "er' = fst (snd (bundle_update13 E i s er)) \<and>
    multiMarkers s' = multiMarkers (fst (bundle_update13 E i s er)) \<and>
    pm' = memcpy_doubles pm (i * 16) (Pose_GetMatrixGL E (snd (snd (bundle_update13 E i s er)))) 16"
  using assms
  by (auto simp: multi_marker_step13_def Let_def split_beta
      dest!: hide_texture_block_Inr split: if_splits option.splits sum.splits)

lemma multi_marker_rounds13:
  assumes run: "for_indices (multi_marker_step13 E rht) [0..<n] st0 =
      Some (Inr (s', ids', pm', er', tex', ti'))"
    and i: "i < n"
  shows "\<exists>s0 ids0 pm0 er0 tex0 ti0.
    in_registration_order (multi_marker_step13 E rht) i st0 = Some (Inr (s0, ids0, pm0, er0, tex0, ti0)) \<and>
    er' i = fst (snd (bundle_update13 E i s0 er0)) i \<and>
    multiMarkers s' ! i = multiMarkers (fst (bundle_update13 E i s0 er0)) ! i \<and>
    (\<forall>j < 16. pm' (i * 16 + j) = Pose_GetMatrixGL E (snd (snd (bundle_update13 E i s0 er0))) j)"
proof -
  have split: "[0..<n] = [0..<i] @ i # [Suc i..<n]"
  proof -
    from i have "[0..<i + (n - i)] = [0..<i] @ [i..<i + (n - i)]"
      by (intro upt_add_eq_append) simp
    with i show ?thesis by (simp add: upt_conv_Cons)
  qed
  from run obtain sti where pre: "for_indices (multi_marker_step13 E rht) [0..<i] st0 = Some (Inr sti)"
    and post: "for_indices (multi_marker_step13 E rht) (i # [Suc i..<n]) sti =
      Some (Inr (s', ids', pm', er', tex', ti'))"
    unfolding split for_indices_append by (auto split: option.splits sum.splits)
  from post obtain st1 where s1: "multi_marker_step13 E rht i sti = Some (Inr st1)"
    and r: "for_indices (multi_marker_step13 E rht) [Suc i..<n] st1 =
      Some (Inr (s', ids', pm', er', tex', ti'))"
    by (auto split: option.splits sum.splits)
  obtain s0 ids0 pm0 er0 tex0 ti0 where sti: "sti = (s0, ids0, pm0, er0, tex0, ti0)"
    by (cases sti rule: prod_cases6)
  obtain s1' ids1 pm1 er1 tex1 ti1 where st1: "st1 = (s1', ids1, pm1, er1, tex1, ti1)"
    by (cases st1 rule: prod_cases6)
  note rd = multi_marker_step13_round [OF s1 [unfolded sti st1]]
  have "i \<notin> set [Suc i..<n]" by simp
  note fr = multi_marker_loop13_frame [OF r [unfolded st1] this]
  from fr rd have "er' i = fst (snd (bundle_update13 E i s0 er0)) i \<and>
    multiMarkers s' ! i = multiMarkers (fst (bundle_update13 E i s0 er0)) ! i \<and>
    (\<forall>j < 16. pm' (i * 16 + j) = Pose_GetMatrixGL E (snd (snd (bundle_update13 E i s0 er0))) j)"
    by (simp add: memcpy_doubles_own_block)
  with pre sti show ?thesis
    by (simp add: in_registration_order_for_indices)
qed

lemma bundle_poses13:
  assumes m: "Detector_markers E (markerDetector s) \<noteq> []"
  shows "alvar_get_multi_marker_poses13 E ids pm er rht tex s =
      without_texture_index (in_registration_order (multi_marker_step13 E rht)
        (length (multiMarkers s)) (s, ids, pm, er, tex, 0))"
    and "textures_ready rht s \<Longrightarrow>
      \<exists>r. alvar_get_multi_marker_poses13 E ids pm er rht tex s = Some (Inr r)"
    and "alvar_get_multi_marker_poses13 E ids pm er rht tex s = Some (Inr (s', ids', pm', er', tex')) \<Longrightarrow>
      length (multiMarkers s') = length (multiMarkers s) \<and>
      (\<forall>i. ids' i = (if i < length (multiMarkers s) then int i else ids i)) \<and>
      (\<not> detect_additional s \<longrightarrow>
         (\<forall>i < length (multiMarkers s).
            (let u = MultiMarker_Update E (Detector_markers E (markerDetector s)) (cam s)
                       (Pose_new E) (multiMarkers s ! i)
             in er' i = fst u \<and> multiMarkers s' ! i = snd (snd u) \<and>
                (\<forall>j < 16. pm' (i * 16 + j) = Pose_GetMatrixGL E (fst (snd u)) j)))) \<and>
      (\<forall>i < length (multiMarkers s).
         \<exists>s0 ids0 pm0 er0 tex0 ti0.
           in_registration_order (multi_marker_step13 E rht) i (s, ids, pm, er, tex, 0) =
             Some (Inr (s0, ids0, pm0, er0, tex0, ti0)) \<and>
           er' i = fst (snd (bundle_update13 E i s0 er0)) i \<and>
           multiMarkers s' ! i = multiMarkers (fst (bundle_update13 E i s0 er0)) ! i \<and>
           (\<forall>j < 16. pm' (i * 16 + j) =
              Pose_GetMatrixGL E (snd (snd (bundle_update13 E i s0 er0))) j))"
proof -
  show "alvar_get_multi_marker_poses13 E ids pm er rht tex s =
      without_texture_index (in_registration_order (multi_marker_step13 E rht)
        (length (multiMarkers s)) (s, ids, pm, er, tex, 0))"
    using m by (simp add: alvar_get_multi_marker_poses13_def without_texture_index_def
        in_registration_order_for_indices)
  {
    assume "textures_ready rht s"
    from multi_marker_loop13_total [OF this, of E "[0..<length (multiMarkers s)]" ids pm er tex 0] m
    show "\<exists>r. alvar_get_multi_marker_poses13 E ids pm er rht tex s = Some (Inr r)"
      by (auto simp: alvar_get_multi_marker_poses13_def)
  }
  {
    assume "alvar_get_multi_marker_poses13 E ids pm er rht tex s = Some (Inr (s', ids', pm', er', tex'))"
    with m obtain ti' where run: "for_indices (multi_marker_step13 E rht) [0..<length (multiMarkers s)]
        (s, ids, pm, er, tex, 0) = Some (Inr (s', ids', pm', er', tex', ti'))"
      by (auto simp: alvar_get_multi_marker_poses13_def split: option.splits sum.splits)
    have a: "length (multiMarkers s') = length (multiMarkers s)"
      by (rule multi_marker_loop13_length [OF run])
    have b: "ids' i = (if i < length (multiMarkers s) then int i else ids i)" for i
      using multi_marker_loop13_ids [OF run, of i] by simp
    have c: "er' i = fst (MultiMarker_Update E (Detector_markers E (markerDetector s)) (cam s)
          (Pose_new E) (multiMarkers s ! i)) \<and>
        multiMarkers s' ! i = snd (snd (MultiMarker_Update E (Detector_markers E (markerDetector s))
          (cam s) (Pose_new E) (multiMarkers s ! i))) \<and>
        (\<forall>j < 16. pm' (i * 16 + j) = Pose_GetMatrixGL E (fst (snd (MultiMarker_Update E
          (Detector_markers E (markerDetector s)) (cam s) (Pose_new E) (multiMarkers s ! i)))) j)"
      if "\<not> detect_additional s" "i < length (multiMarkers s)" for i
      using multi_marker_loop13_plain [OF run that(1), of i]
        multi_marker_loop13_bundles [OF run that(1), of i] that(2)
      by simp
    have d: "\<exists>s0 ids0 pm0 er0 tex0 ti0.
           in_registration_order (multi_marker_step13 E rht) i (s, ids, pm, er, tex, 0) =
             Some (Inr (s0, ids0, pm0, er0, tex0, ti0)) \<and>
           er' i = fst (snd (bundle_update13 E i s0 er0)) i \<and>
           multiMarkers s' ! i = multiMarkers (fst (bundle_update13 E i s0 er0)) ! i \<and>
           (\<forall>j < 16. pm' (i * 16 + j) =
              Pose_GetMatrixGL E (snd (snd (bundle_update13 E i s0 er0))) j)"
      if "i < length (multiMarkers s)" for i
      by (rule multi_marker_rounds13 [OF run that])
    from a b c d show "length (multiMarkers s') = length (multiMarkers s) \<and>
      (\<forall>i. ids' i = (if i < length (multiMarkers s) then int i else ids i)) \<and>
      (\<not> detect_additional s \<longrightarrow>
         (\<forall>i < length (multiMarkers s).
            (let u = MultiMarker_Update E (Detector_markers E (markerDetector s)) (cam s)
                       (Pose_new E) (multiMarkers s ! i)
             in er' i = fst u \<and> multiMarkers s' ! i = snd (snd u) \<and>
                (\<forall>j < 16. pm' (i * 16 + j) = Pose_GetMatrixGL E (fst (snd u)) j)))) \<and>
      (\<forall>i < length (multiMarkers s).
         \<exists>s0 ids0 pm0 er0 tex0 ti0.
           in_registration_order (multi_marker_step13 E rht) i (s, ids, pm, er, tex, 0) =
             Some (Inr (s0, ids0, pm0, er0, tex0, ti0)) \<and>
           er' i = fst (snd (bundle_update13 E i s0 er0)) i \<and>
           multiMarkers s' ! i = multiMarkers (fst (bundle_update13 E i s0 er0)) ! i \<and>
           (\<forall>j < 16. pm' (i * 16 + j) =
              Pose_GetMatrixGL E (snd (snd (bundle_update13 E i s0 er0))) j))"
      unfolding Let_def by blast
  }
qed

lemma multi_marker_step15_poses:
  assumes "multi_marker_step15 E rht i (s, ids, pm, er, tex, ti) = Some (Inr (s', ids', pm', er', tex', ti'))"
    and "\<not> detect_additional s"
  shows "pm' = memcpy_doubles pm (i * 16) (Pose_GetMatrixGL E (fst (snd (MultiMarker_Update E
       (Detector_markers E (active_detector s)) (cam s) (Pose_new E) (multiMarkers s ! i))))) 16"
  using assms
  by (auto simp: multi_marker_step15_def bundle_update15_def active_detector_def Let_def split_beta
      dest!: hide_texture_block_Inr split: if_splits option.splits sum.splits)

lemma multi_marker_step15_frame:
  assumes "multi_marker_step15 E rht i (s, ids, pm, er, tex, ti) = Some (Inr (s', ids', pm', er', tex', ti'))"
  shows "\<forall>k. k \<noteq> i \<longrightarrow> multiMarkers s' ! k = multiMarkers s ! k"
    and "\<forall>x. fst x \<noteq> i \<longrightarrow> snd x < 16 \<longrightarrow> pm' (fst x * 16 + snd x) = pm (fst x * 16 + snd x)"
  using assms
  by (auto simp: multi_marker_step15_def bundle_update15_def Let_def split_beta memcpy_doubles_other_block
      dest!: hide_texture_block_Inr split: if_splits option.splits sum.splits)


lemma multi_marker_loop15_length:
  "for_indices (multi_marker_step15 E rht) is (s, ids, pm, er, tex, ti) =
      Some (Inr (s', ids', pm', er', tex', ti')) \<Longrightarrow>
   length (multiMarkers s') = length (multiMarkers s)"
proof (induction "is" arbitrary: s ids pm er tex ti)
  case Nil
  then show ?case by simp
next
  case (Cons i "is")
  from Cons.prems(1) obtain s1 ids1 pm1 er1 tex1 ti1 where
    s1: "multi_marker_step15 E rht i (s, ids, pm, er, tex, ti) = Some (Inr (s1, ids1, pm1, er1, tex1, ti1))"
    and r: "for_indices (multi_marker_step15 E rht) is (s1, ids1, pm1, er1, tex1, ti1) =
      Some (Inr (s', ids', pm', er', tex', ti'))"
    by (auto split: option.splits sum.splits)
  from Cons.IH [OF r] multi_marker_step15_Inr [OF s1] show ?case by simp
qed

lemma multi_marker_loop15_bundles:
  "for_indices (multi_marker_step15 E rht) is (s, ids, pm, er, tex, ti) =
      Some (Inr (s', ids', pm', er', tex', ti')) \<Longrightarrow>
   \<not> detect_additional s \<Longrightarrow> distinct is \<Longrightarrow> \<forall>i \<in> set is. i < length (multiMarkers s) \<Longrightarrow>
   k \<in> set is \<Longrightarrow>
   multiMarkers s' ! k = snd (snd (MultiMarker_Update E (Detector_markers E (active_detector s))
      (cam s) (Pose_new E) (multiMarkers s ! k))) \<and>
   (\<forall>j < 16. pm' (k * 16 + j) = Pose_GetMatrixGL E (fst (snd (MultiMarker_Update E
      (Detector_markers E (active_detector s)) (cam s) (Pose_new E) (multiMarkers s ! k)))) j)"
proof (induction "is" arbitrary: s ids pm er tex ti)
  case Nil
  then show ?case by simp
next
  case (Cons i "is")
  from Cons.prems(1) obtain s1 ids1 pm1 er1 tex1 ti1 where
    s1: "multi_marker_step15 E rht i (s, ids, pm, er, tex, ti) = Some (Inr (s1, ids1, pm1, er1, tex1, ti1))"
    and r: "for_indices (multi_marker_step15 E rht) is (s1, ids1, pm1, er1, tex1, ti1) =
      Some (Inr (s', ids', pm', er', tex', ti'))"
    by (auto split: option.splits sum.splits)
  note p = multi_marker_step15_plain [OF s1 Cons.prems(2)]
  note q = multi_marker_step15_poses [OF s1 Cons.prems(2)]
  note l = multi_marker_step15_Inr [OF s1]
  from Cons.prems(3) have d: "distinct is" "i \<notin> set is" by auto
  from Cons.prems(4) have il: "i < length (multiMarkers s)" by simp
  from Cons.prems(4) l have b: "\<forall>i \<in> set is. i < length (multiMarkers s1)" by simp
  show ?case
  proof (cases "k = i")
    case True
    have stepm: "\<forall>x. x \<noteq> j \<longrightarrow> multiMarkers (fst st') ! x = multiMarkers (fst st) ! x"
      if "multi_marker_step15 E rht j st = Some (Inr st')" for j st st'
      using that multi_marker_step15_frame(1) [of E rht j "fst st" "fst (snd st)"]
      by (cases st; cases st') auto
    have stepp: "\<forall>x. fst x \<noteq> j \<longrightarrow>
        (if snd x < 16 then (fst (snd (snd st'))) (fst x * 16 + snd x) else 0) =
        (if snd x < 16 then (fst (snd (snd st))) (fst x * 16 + snd x) else 0)"
      if "multi_marker_step15 E rht j st = Some (Inr st')" for j st st'
      using that multi_marker_step15_frame(2) [of E rht j "fst st" "fst (snd st)"]
      by (cases st; cases st') auto
    from for_indices_frame_keyed [where key = "\<lambda>x. x" and g = "\<lambda>st x. multiMarkers (fst st) ! x"
        and body = "multi_marker_step15 E rht", OF stepm r, of i] d(2)
    have m: "multiMarkers s' ! i = multiMarkers s1 ! i" by simp
    have pm: "pm' (i * 16 + j) = pm1 (i * 16 + j)" if "j < 16" for j
      using for_indices_frame_keyed [where key = fst
        and g = "\<lambda>st x. if snd x < 16 then (fst (snd (snd st))) (fst x * 16 + snd x) else 0"
        and body = "multi_marker_step15 E rht", OF stepp r, of "(i, j)"] d(2) that
      by simp
    from m pm p q il True show ?thesis
      by (simp add: memcpy_doubles_own_block)
  next
    case False
    with Cons.prems(5) have "k \<in> set is" by simp
    from Cons.IH [OF r _ d(1) b this] p False show ?thesis by simp
  qed
qed

lemma multi_marker_loop15_frame:
  assumes r: "for_indices (multi_marker_step15 E rht) is (s1, ids1, pm1, er1, tex1, ti1) =
      Some (Inr (s', ids', pm', er', tex', ti'))"
    and i: "i \<notin> set is"
  shows "er' i = er1 i \<and> multiMarkers s' ! i = multiMarkers s1 ! i \<and>
    (\<forall>j < 16. pm' (i * 16 + j) = pm1 (i * 16 + j))"
proof -
  have stepe: "\<forall>k. k \<noteq> j \<longrightarrow>
      (fst \<circ> snd \<circ> snd \<circ> snd) st' k = (fst \<circ> snd \<circ> snd \<circ> snd) st k"
    if "multi_marker_step15 E rht j st = Some (Inr st')" for j st st'
    using that multi_marker_step15_errors_frame [of E rht j "fst st" "fst (snd st)"]
    by (cases st; cases st') auto
  have stepm: "\<forall>x. x \<noteq> j \<longrightarrow> multiMarkers (fst st') ! x = multiMarkers (fst st) ! x"
    if "multi_marker_step15 E rht j st = Some (Inr st')" for j st st'
    using that multi_marker_step15_frame(1) [of E rht j "fst st" "fst (snd st)"]
    by (cases st; cases st') auto
  have stepp: "\<forall>x. fst x \<noteq> j \<longrightarrow>
      (if snd x < 16 then (fst (snd (snd st'))) (fst x * 16 + snd x) else 0) =
      (if snd x < 16 then (fst (snd (snd st))) (fst x * 16 + snd x) else 0)"
    if "multi_marker_step15 E rht j st = Some (Inr st')" for j st st'
    using that multi_marker_step15_frame(2) [of E rht j "fst st" "fst (snd st)"]
    by (cases st; cases st') auto
  from for_indices_frame [where g = "fst \<circ> snd \<circ> snd \<circ> snd"
      and body = "multi_marker_step15 E rht", OF stepe r i]
  have e: "er' i = er1 i" by simp
  from for_indices_frame_keyed [where key = "\<lambda>x. x" and g = "\<lambda>st x. multiMarkers (fst st) ! x"
      and body = "multi_marker_step15 E rht", OF stepm r, of i] i
  have m: "multiMarkers s' ! i = multiMarkers s1 ! i" by simp
  have p: "pm' (i * 16 + j) = pm1 (i * 16 + j)" if "j < 16" for j
    using for_indices_frame_keyed [where key = fst
      and g = "\<lambda>st x. if snd x < 16 then (fst (snd (snd st))) (fst x * 16 + snd x) else 0"
      and body = "multi_marker_step15 E rht", OF stepp r, of "(i, j)"] i that
    by simp
  from e m p show ?thesis by blast
qed

lemma multi_marker_step15_round:
  assumes "multi_marker_step15 E rht i (s, ids, pm, er, tex, ti) = Some (Inr (s', ids', pm', er', tex', ti'))"
  shows "er' = fst (snd (bundle_update15 E i s er)) \<and>
    multiMarkers s' = multiMarkers (fst (bundle_update15 E i s er)) \<and>
    pm' = memcpy_doubles pm (i * 16) (Pose_GetMatrixGL E (snd (snd (bundle_update15 E i s er)))) 16"
  using assms
  by (auto simp: multi_marker_step15_def Let_def split_beta
      dest!: hide_texture_block_Inr split: if_splits option.splits sum.splits)

lemma multi_marker_rounds15:
  assumes run: "for_indices (multi_marker_step15 E rht) [0..<n] st0 =
      Some (Inr (s', ids', pm', er', tex', ti'))"
    and i: "i < n"
  shows "\<exists>s0 ids0 pm0 er0 tex0 ti0.
    in_registration_order (multi_marker_step15 E rht) i st0 = Some (Inr (s0, ids0, pm0, er0, tex0, ti0)) \<and>
    er' i = fst (snd (bundle_update15 E i s0 er0)) i \<and>
    multiMarkers s' ! i = multiMarkers (fst (bundle_update15 E i s0 er0)) ! i \<and>
    (\<forall>j < 16. pm' (i * 16 + j) = Pose_GetMatrixGL E (snd (snd (bundle_update15 E i s0 er0))) j)"
proof -
  have split: "[0..<n] = [0..<i] @ i # [Suc i..<n]"
  proof -
    from i have "[0..<i + (n - i)] = [0..<i] @ [i..<i + (n - i)]"
      by (intro upt_add_eq_append) simp
    with i show ?thesis by (simp add: upt_conv_Cons)
  qed
  from run obtain sti where pre: "for_indices (multi_marker_step15 E rht) [0..<i] st0 = Some (Inr sti)"
    and post: "for_indices (multi_marker_step15 E rht) (i # [Suc i..<n]) sti =
      Some (Inr (s', ids', pm', er', tex', ti'))"
    unfolding split for_indices_append by (auto split: option.splits sum.splits)
  from post obtain st1 where s1: "multi_marker_step15 E rht i sti = Some (Inr st1)"
    and r: "for_indices (multi_marker_step15 E rht) [Suc i..<n] st1 =
      Some (Inr (s', ids', pm', er', tex', ti'))"
    by (auto split: option.splits sum.splits)
  obtain s0 ids0 pm0 er0 tex0 ti0 where sti: "sti = (s0, ids0, pm0, er0, tex0, ti0)"
    by (cases sti rule: prod_cases6)
  obtain s1' ids1 pm1 er1 tex1 ti1 where st1: "st1 = (s1', ids1, pm1, er1, tex1, ti1)"
    by (cases st1 rule: prod_cases6)
  note rd = multi_marker_step15_round [OF s1 [unfolded sti st1]]
  have "i \<notin> set [Suc i..<n]" by simp
  note fr = multi_marker_loop15_frame [OF r [unfolded st1] this]
  from fr rd have "er' i = fst (snd (bundle_update15 E i s0 er0)) i \<and>
    multiMarkers s' ! i = multiMarkers (fst (bundle_update15 E i s0 er0)) ! i \<and>
    (\<forall>j < 16. pm' (i * 16 + j) = Pose_GetMatrixGL E (snd (snd (bundle_update15 E i s0 er0))) j)"
    by (simp add: memcpy_doubles_own_block)
  with pre sti show ?thesis
    by (simp add: in_registration_order_for_indices)
qed

lemma bundle_poses15:
  assumes m: "Detector_markers E (active_detector s) \<noteq> []"
  shows "alvar_get_multi_marker_poses15 E ids pm er rht tex s =
      without_texture_index (in_registration_order (multi_marker_step15 E rht)
        (length (multiMarkers s)) (s, ids, pm, er, tex, 0))"
    and "textures_ready rht s \<Longrightarrow>
      \<exists>r. alvar_get_multi_marker_poses15 E ids pm er rht tex s = Some (Inr r)"
    and "alvar_get_multi_marker_poses15 E ids pm er rht tex s = Some (Inr (s', ids', pm', er', tex')) \<Longrightarrow>
      length (multiMarkers s') = length (multiMarkers s) \<and>
      (\<forall>i. ids' i = (if i < length (multiMarkers s) then int i else ids i)) \<and>
      (\<not> detect_additional s \<longrightarrow>
         (\<forall>i < length (multiMarkers s).
            (let u = MultiMarker_Update E (Detector_markers E (active_detector s)) (cam s)
                       (Pose_new E) (multiMarkers s ! i)
             in er' i = fst u \<and> multiMarkers s' ! i = snd (snd u) \<and>
                (\<forall>j < 16. pm' (i * 16 + j) = Pose_GetMatrixGL E (fst (snd u)) j)))) \<and>
      (\<forall>i < length (multiMarkers s).
         \<exists>s0 ids0 pm0 er0 tex0 ti0.
           in_registration_order (multi_marker_step15 E rht) i (s, ids, pm, er, tex, 0) =
             Some (Inr (s0, ids0, pm0, er0, tex0, ti0)) \<and>
           er' i = fst (snd (bundle_update15 E i s0 er0)) i \<and>
           multiMarkers s' ! i = multiMarkers (fst (bundle_update15 E i s0 er0)) ! i \<and>
           (\<forall>j < 16. pm' (i * 16 + j) =
              Pose_GetMatrixGL E (snd (snd (bundle_update15 E i s0 er0))) j))"
proof -
  show "alvar_get_multi_marker_poses15 E ids pm er rht tex s =
      without_texture_index (in_registration_order (multi_marker_step15 E rht)
        (length (multiMarkers s)) (s, ids, pm, er, tex, 0))"
    using m by (simp add: alvar_get_multi_marker_poses15_def without_texture_index_def
        in_registration_order_for_indices)
  {
    assume "textures_ready rht s"
    from multi_marker_loop15_total [OF this, of E "[0..<length (multiMarkers s)]" ids pm er tex 0] m
    show "\<exists>r. alvar_get_multi_marker_poses15 E ids pm er rht tex s = Some (Inr r)"
      by (auto simp: alvar_get_multi_marker_poses15_def)
  }
  {
    assume "alvar_get_multi_marker_poses15 E ids pm er rht tex s = Some (Inr (s', ids', pm', er', tex'))"
    with m obtain ti' where run: "for_indices (multi_marker_step15 E rht) [0..<length (multiMarkers s)]
        (s, ids, pm, er, tex, 0) = Some (Inr (s', ids', pm', er', tex', ti'))"
      by (auto simp: alvar_get_multi_marker_poses15_def split: option.splits sum.splits)
    have a: "length (multiMarkers s') = length (multiMarkers s)"
      by (rule multi_marker_loop15_length [OF run])
    have b: "ids' i = (if i < length (multiMarkers s) then int i else ids i)" for i
      using multi_marker_loop15_ids [OF run, of i] by simp
    have c: "er' i = fst (MultiMarker_Update E (Detector_markers E (active_detector s)) (cam s)
          (Pose_new E) (multiMarkers s ! i)) \<and>
        multiMarkers s' ! i = snd (snd (MultiMarker_Update E (Detector_markers E (active_detector s))
          (cam s) (Pose_new E) (multiMarkers s ! i))) \<and>
        (\<forall>j < 16. pm' (i * 16 + j) = Pose_GetMatrixGL E (fst (snd (MultiMarker_Update E
          (Detector_markers E (active_detector s)) (cam s) (Pose_new E) (multiMarkers s ! i)))) j)"
      if "\<not> detect_additional s" "i < length (multiMarkers s)" for i
      using multi_marker_loop15_plain [OF run that(1), of i]
        multi_marker_loop15_bundles [OF run that(1), of i] that(2)
      by simp
    have d: "\<exists>s0 ids0 pm0 er0 tex0 ti0.
           in_registration_order (multi_marker_step15 E rht) i (s, ids, pm, er, tex, 0) =
             Some (Inr (s0, ids0, pm0, er0, tex0, ti0)) \<and>
           er' i = fst (snd (bundle_update15 E i s0 er0)) i \<and>
           multiMarkers s' ! i = multiMarkers (fst (bundle_update15 E i s0 er0)) ! i \<and>
           (\<forall>j < 16. pm' (i * 16 + j) =
              Pose_GetMatrixGL E (snd (snd (bundle_update15 E i s0 er0))) j)"
      if "i < length (multiMarkers s)" for i
      by (rule multi_marker_rounds15 [OF run that])
    from a b c d show "length (multiMarkers s') = length (multiMarkers s) \<and>
      (\<forall>i. ids' i = (if i < length (multiMarkers s) then int i else ids i)) \<and>
      (\<not> detect_additional s \<longrightarrow>
         (\<forall>i < length (multiMarkers s).
            (let u = MultiMarker_Update E (Detector_markers E (active_detector s)) (cam s)
                       (Pose_new E) (multiMarkers s ! i)
             in er' i = fst u \<and> multiMarkers s' ! i = snd (snd u) \<and>
                (\<forall>j < 16. pm' (i * 16 + j) = Pose_GetMatrixGL E (fst (snd u)) j)))) \<and>
      (\<forall>i < length (multiMarkers s).
         \<exists>s0 ids0 pm0 er0 tex0 ti0.
           in_registration_order (multi_marker_step15 E rht) i (s, ids, pm, er, tex, 0) =
             Some (Inr (s0, ids0, pm0, er0, tex0, ti0)) \<and>
           er' i = fst (snd (bundle_update15 E i s0 er0)) i \<and>
           multiMarkers s' ! i = multiMarkers (fst (bundle_update15 E i s0 er0)) ! i \<and>
           (\<forall>j < 16. pm' (i * 16 + j) =
              Pose_GetMatrixGL E (snd (snd (bundle_update15 E i s0 er0))) j))"
      unfolding Let_def by blast
  }
qed

subsection \<open>The claims\<close>

text \<open>
  Claim C1, as amended. In both versions, after \<^verbatim>\<open>alvar_detect_marker\<close> the markers at
  the resolved indices carry exactly the requested ids that were detected, in the order
  of the request, unmatched ids being skipped; every resolved index lies in the detection
  result; the returned count is the number of resolved entries and at most the number of
  requested ids; and it is at most the size of the detection result when the requested
  ids are pairwise distinct.
\<close>

theorem C1_interest_selection:
  "(case alvar_detect_marker13 E nCh cModel chSeq data req mme mte s of
      (numFound, cnt, s') \<Rightarrow>
        interest_resolved E (Detector_markers E (markerDetector s')) req (foundMarkers s') cnt) \<and>
   (case alvar_detect_marker15 E nCh cModel chSeq data req mme mte s15 of
      (numFound, cnt, s') \<Rightarrow>
        interest_resolved E (Detector_markers E (active_detector s')) req (foundMarkers s') cnt)"
proof
  show "case alvar_detect_marker13 E nCh cModel chSeq data req mme mte s of
      (numFound, cnt, s') \<Rightarrow>
        interest_resolved E (Detector_markers E (markerDetector s')) req (foundMarkers s') cnt"
    by (simp add: alvar_detect_marker13_def Let_def split_beta interest_resolved_pair
        interest_resolved_nothing)
  show "case alvar_detect_marker15 E nCh cModel chSeq data req mme mte s15 of
      (numFound, cnt, s') \<Rightarrow>
        interest_resolved E (Detector_markers E (active_detector s')) req (foundMarkers s') cnt"
    by (simp add: alvar_detect_marker15_def active_detector_def Let_def split_beta
        interest_resolved_pair interest_resolved_nothing)
qed

text \<open>The request \<open>[7, 3, 9]\<close> on a frame with the markers 3 and 7 resolves to \<open>[1, 0]\<close>.\<close>

theorem C1_interest_selection_witness:
  "distinct [7, 3, 9 :: int] \<and> interest_resolved demo_engine [3, 7] [7, 3, 9] [1, 0] 2"
proof
  show "distinct [7, 3, 9 :: int]" by simp
  show "interest_resolved demo_engine [3, 7] [7, 3, 9] [1, 0] 2"
    using C1_interest_selection [where E = demo_engine and nCh = 3 and cModel = "c_str ''RGB''"
        and chSeq = "c_str ''RGB''" and data = "frame_of [2, 3, 7]" and req = "[7, 3, 9]"
        and mme = "0.08" and mte = "0.2" and s = demo_state13 and ?s15.0 = demo_state15,
        THEN conjunct1]
    by (simp add: alvar_detect_marker13_def demo_simps Let_def upt_rec)
qed

text \<open>
  Claim C1 as stated fails: an id requested twice is resolved twice, so one detected
  marker gives a count of 2.
\<close>

theorem C1_count_exceeds_detection_size:
  "length (Detector_markers demo_engine (markerDetector (snd (snd
      (alvar_detect_marker13 demo_engine 3 (c_str ''RGB'') (c_str ''RGB'') (frame_of [1, 3]) [3, 3] 0.08 0.2
         demo_state13))))) = 1 \<and>
   fst (snd (alvar_detect_marker13 demo_engine 3 (c_str ''RGB'') (c_str ''RGB'') (frame_of [1, 3]) [3, 3] 0.08 0.2
      demo_state13)) = 2"
  by (simp add: alvar_detect_marker13_def demo_simps Let_def upt_rec)

text \<open>
  Claim C2, as amended. \<^verbatim>\<open>alvar_add_multi_marker\<close> appends exactly one bundle, the one
  built from the member ids as the load attempt left it, whatever \<^verbatim>\<open>Load\<close> returned,
  and changes nothing else; it returns no value.
\<close>

theorem C2_bundle_always_appended:
  "alvar_add_multi_marker E ids filename s =
     s\<lparr>multiMarkers := multiMarkers s @
        [snd (MultiMarker_Load E filename
               (if strstr_found filename ''.xml'' then FILE_FORMAT_XML else FILE_FORMAT_DEFAULT)
               (files s) (MultiMarker_new E ids))]\<rparr>"
  by (simp add: alvar_add_multi_marker_def Let_def split_beta)

text \<open>
  Claim C2 as stated fails: the geometry file does not exist, \<^verbatim>\<open>Load\<close> fails, and the
  registry, empty before, holds the bundle without geometry.
\<close>

theorem C2_failed_load_still_registers:
  "\<not> fst (MultiMarker_Load demo_engine ''missing.txt'' FILE_FORMAT_DEFAULT (files demo_state13)
       (MultiMarker_new demo_engine [1, 2])) \<and>
   multiMarkers demo_state13 = [] \<and>
   multiMarkers (alvar_add_multi_marker demo_engine [1, 2] ''missing.txt'' demo_state13) =
     [([1, 2], False)]"
  by (simp add: alvar_add_multi_marker_def demo_simps Let_def)

text \<open>
  Claim C3 fails in version 1.5 when the second detector is selected. After a full
  detection on the second detector with \<^verbatim>\<open>maxTrackError\<close> 0.2, a bundle-pose request in
  detect-additional mode sends the track hint and the additional pass (with 0.2) to the
  first detector, which holds no markers; the selected detector receives neither, and the
  reported error comes from its unrefined markers.
\<close>

theorem C3_additional_pass_on_first_detector:
  "detector_id demo_second_detector15 = 1 \<and> detect_additional demo_second_detector15 \<and>
   curMaxTrackError demo_second_detector15 = 0.2 \<and>
   markerDetector demo_second_detector15 = ([], []) \<and>
   markerDetector2 demo_second_detector15 = ([3, 7], []) \<and>
   (case alvar_get_multi_marker_poses15 demo_engine (\<lambda>k. 9) (\<lambda>k. 0) (\<lambda>k. 9) False (\<lambda>k. 0)
           demo_second_detector15 of
      Some (Inr (s', ids', pm', er', tex')) \<Rightarrow>
        markerDetector s' = ([], [TrackHint, Additional 0.2]) \<and>
        markerDetector2 s' = ([3, 7], []) \<and> er' 0 = 0
    | _ \<Rightarrow> False)"
  by (simp add: demo_second_detector15_def demo_run_simps alvar_get_multi_marker_poses15_def
      multi_marker_step15_def bundle_update15_def memcpy_doubles_def)

text \<open>
  Claim C4. When a calibration is in progress, \<^verbatim>\<open>alvar_finalize_calibration\<close> resets the
  accumulator whatever the save returns, returns what the save returned, and leaves the
  in-progress flag set exactly when the save failed.
\<close>

theorem C4_finalize_in_progress:
  "calibration_started s \<Longrightarrow>
   (case alvar_finalize_calibration E calibrationFilename s of
      (ret, s') \<Rightarrow>
        pp s' = ProjPoints_Reset E (pp s) \<and>
        cam s' = Camera_Calibrate E (pp s) (cam s) \<and>
        ret = fst (Camera_SaveCalib E calibrationFilename (Camera_Calibrate E (pp s) (cam s)) (files s)) \<and>
        files s' = snd (Camera_SaveCalib E calibrationFilename (Camera_Calibrate E (pp s) (cam s)) (files s)) \<and>
        (calibration_started s' \<longleftrightarrow> \<not> ret))"
  by (simp add: alvar_finalize_calibration_def Let_def split_beta)

text \<open>A failed save (empty file name) and a successful one, after one observation.\<close>

theorem C4_finalize_in_progress_witness:
  "calibration_started demo_observed \<and> pp demo_observed = 1 \<and>
   (case alvar_finalize_calibration demo_engine [] demo_observed of
      (ret, s') \<Rightarrow> \<not> ret \<and> pp s' = 0 \<and> calibration_started s') \<and>
   (case alvar_finalize_calibration demo_engine ''out.xml'' demo_observed of
      (ret, s') \<Rightarrow> ret \<and> pp s' = 0 \<and> \<not> calibration_started s')"
proof -
  have h: "calibration_started demo_observed"
    by (simp add: demo_observed_def alvar_calibrate_camera_def alvar_init_camera15_def demo_simps Let_def)
  have p: "pp demo_observed = 1"
    by (simp add: demo_observed_def alvar_calibrate_camera_def alvar_init_camera15_def demo_simps Let_def)
  have c: "cam demo_observed = ''synthetic''" "files demo_observed = [''calib.xml'']"
    by (simp_all add: demo_observed_def alvar_calibrate_camera_def alvar_init_camera15_def demo_simps Let_def)
  have e: "ProjPoints_Reset demo_engine = (\<lambda>p. 0)" 
    "Camera_SaveCalib demo_engine = (\<lambda>f c fs. if f = [] then (False, fs) else (True, f # fs))"
    by (simp_all add: demo_engine_def)
  show ?thesis
    using h p C4_finalize_in_progress [OF h, where E = demo_engine and calibrationFilename = "[]"]
      C4_finalize_in_progress [OF h, where E = demo_engine and calibrationFilename = "''out.xml''"]
    by (simp add: split_beta e c)
qed



text \<open>
  Claim C6. When the in-progress flag is not set, \<^verbatim>\<open>alvar_finalize_calibration\<close> returns
  false and leaves every global as it was: the accumulator, the camera (no calibration is
  computed) and the file system (no file is written).
\<close>

theorem C6_finalize_without_observation:
  "\<not> calibration_started s \<Longrightarrow> alvar_finalize_calibration E calibrationFilename s = (False, s)"
  by (simp add: alvar_finalize_calibration_def)

theorem C6_finalize_without_observation_witness:
  "\<not> calibration_started (snd (alvar_init_camera15 demo_engine None 640 480 demo_state15)) \<and>
   alvar_finalize_calibration demo_engine ''out.xml''
       (snd (alvar_init_camera15 demo_engine None 640 480 demo_state15)) =
     (False, snd (alvar_init_camera15 demo_engine None 640 480 demo_state15))"
proof -
  have h: "\<not> calibration_started (snd (alvar_init_camera15 demo_engine None 640 480 demo_state15))"
    by (simp add: alvar_init_camera15_def)
  from h C6_finalize_without_observation [OF h, where E = demo_engine
      and calibrationFilename = "''out.xml''"]
  show ?thesis by (rule conjI)
qed

text \<open>
  Claim C7. In both versions \<^verbatim>\<open>alvar_init_camera\<close> returns 0 exactly when a file name is
  given and \<^verbatim>\<open>SetCalib\<close> succeeds on it, and the camera is then the one \<^verbatim>\<open>SetCalib\<close>
  produced; otherwise it returns -1 and the camera comes from \<^verbatim>\<open>SetRes\<close> on the given
  resolution. In both cases the stored resolution is the given one and the
  detect-additional flag is off (in version 1.5 also the detector selection and the two
  session flags are reset).
\<close>

theorem C7_init_camera:
  "(case alvar_init_camera13 E calibFile w h s of
      (ret, s') \<Rightarrow>
        (ret = 0 \<longleftrightarrow> (\<exists>f. calibFile = Some f \<and> fst (Camera_SetCalib E f w h (files s) (cam s)))) \<and>
        (ret = 0 \<longrightarrow> cam s' = snd (Camera_SetCalib E (the calibFile) w h (files s) (cam s))) \<and>
        (ret \<noteq> 0 \<longrightarrow> ret = -1 \<and>
           cam s' = Camera_SetRes E w h
             (case calibFile of None \<Rightarrow> cam s
              | Some f \<Rightarrow> snd (Camera_SetCalib E f w h (files s) (cam s)))) \<and>
        cam_width s' = w \<and> cam_height s' = h \<and> \<not> detect_additional s') \<and>
   (case alvar_init_camera15 E calibFile w h s15 of
      (ret, s') \<Rightarrow>
        (ret = 0 \<longleftrightarrow> (\<exists>f. calibFile = Some f \<and> fst (Camera_SetCalib E f w h (files s15) (cam s15)))) \<and>
        (ret = 0 \<longrightarrow> cam s' = snd (Camera_SetCalib E (the calibFile) w h (files s15) (cam s15))) \<and>
        (ret \<noteq> 0 \<longrightarrow> ret = -1 \<and>
           cam s' = Camera_SetRes E w h
             (case calibFile of None \<Rightarrow> cam s15
              | Some f \<Rightarrow> snd (Camera_SetCalib E f w h (files s15) (cam s15)))) \<and>
        cam_width s' = w \<and> cam_height s' = h \<and> \<not> detect_additional s' \<and>
        detector_id s' = 0 \<and> \<not> bundle_initialized s' \<and> \<not> calibration_started s')"
proof
  show "case alvar_init_camera13 E calibFile w h s of
      (ret, s') \<Rightarrow>
        (ret = 0 \<longleftrightarrow> (\<exists>f. calibFile = Some f \<and> fst (Camera_SetCalib E f w h (files s) (cam s)))) \<and>
        (ret = 0 \<longrightarrow> cam s' = snd (Camera_SetCalib E (the calibFile) w h (files s) (cam s))) \<and>
        (ret \<noteq> 0 \<longrightarrow> ret = -1 \<and>
           cam s' = Camera_SetRes E w h
             (case calibFile of None \<Rightarrow> cam s
              | Some f \<Rightarrow> snd (Camera_SetCalib E f w h (files s) (cam s)))) \<and>
        cam_width s' = w \<and> cam_height s' = h \<and> \<not> detect_additional s'"
    by (cases calibFile) (auto simp: alvar_init_camera13_def split: prod.splits bool.splits)
  show "case alvar_init_camera15 E calibFile w h s15 of
      (ret, s') \<Rightarrow>
        (ret = 0 \<longleftrightarrow> (\<exists>f. calibFile = Some f \<and> fst (Camera_SetCalib E f w h (files s15) (cam s15)))) \<and>
        (ret = 0 \<longrightarrow> cam s' = snd (Camera_SetCalib E (the calibFile) w h (files s15) (cam s15))) \<and>
        (ret \<noteq> 0 \<longrightarrow> ret = -1 \<and>
           cam s' = Camera_SetRes E w h
             (case calibFile of None \<Rightarrow> cam s15
              | Some f \<Rightarrow> snd (Camera_SetCalib E f w h (files s15) (cam s15)))) \<and>
        cam_width s' = w \<and> cam_height s' = h \<and> \<not> detect_additional s' \<and>
        detector_id s' = 0 \<and> \<not> bundle_initialized s' \<and> \<not> calibration_started s'"
    by (cases calibFile) (auto simp: alvar_init_camera15_def split: prod.splits bool.splits)
qed

theorem C7_init_camera_witness:
  "(case alvar_init_camera15 demo_engine (Some ''calib.xml'') 640 480
           (alvar_set_detect_additional True demo_state15) of
      (ret, s') \<Rightarrow> ret = 0 \<and> cam s' = ''calib.xml'' \<and> cam_width s' = 640 \<and> \<not> detect_additional s') \<and>
   (case alvar_init_camera15 demo_engine (Some ''missing.xml'') 640 480
           (alvar_set_detect_additional True demo_state15) of
      (ret, s') \<Rightarrow> ret = -1 \<and> cam s' = ''synthetic'' \<and> cam_width s' = 640 \<and> \<not> detect_additional s') \<and>
   (case alvar_init_camera13 demo_engine None 640 480
           (alvar_set_detect_additional True demo_state13) of
      (ret, s') \<Rightarrow> ret = -1 \<and> cam s' = ''synthetic'' \<and> cam_width s' = 640 \<and> \<not> detect_additional s')"
proof -
  have e: "Camera_SetCalib demo_engine = (\<lambda>f w h fs c. if f \<in> set fs then (True, f) else (False, c))"
    "Camera_SetRes demo_engine = (\<lambda>w h c. ''synthetic'')"
    by (simp_all add: demo_engine_def)
  have f: "files (alvar_set_detect_additional True demo_state15) = [''calib.xml'']"
    by (simp add: alvar_set_detect_additional_def demo_state15_def)
  show ?thesis
    using C7_init_camera [where E = demo_engine and calibFile = "Some ''calib.xml''" and w = 640
        and h = 480 and s = "alvar_set_detect_additional True demo_state13"
        and ?s15.0 = "alvar_set_detect_additional True demo_state15", THEN conjunct2]
      C7_init_camera [where E = demo_engine and calibFile = "Some ''missing.xml''" and w = 640
        and h = 480 and s = "alvar_set_detect_additional True demo_state13"
        and ?s15.0 = "alvar_set_detect_additional True demo_state15", THEN conjunct2]
      C7_init_camera [where E = demo_engine and calibFile = "None" and w = 640
        and h = 480 and s = "alvar_set_detect_additional True demo_state13"
        and ?s15.0 = "alvar_set_detect_additional True demo_state15", THEN conjunct1]
    by (simp add: split_beta e f)
qed

text \<open>
  Claim C8, as amended. In both versions, for a request made when the detector in use
  holds a marker (and, with hide textures requested, with the texture indices within the
  range of the counters): the request processes the registered bundles in registration
  order, each after all the bundles registered before it; it returns whenever the pixel
  loop can, in particular whenever no hide texture is requested; and on return the
  registry has the size it had, the id stored for the bundle at registration index \<open>i\<close>
  is \<open>i\<close> whatever its member ids, and the id array is untouched beyond the number of
  bundles. Outside detect-additional mode the error and the pose matrix stored at \<open>i\<close>
  are those \<^verbatim>\<open>Update\<close> computes for the bundle registered at \<open>i\<close>, and that bundle is
  replaced by the one \<^verbatim>\<open>Update\<close> returns. In every mode the error, the pose matrix
  and the bundle at \<open>i\<close> are those that the update of bundle \<open>i\<close> produced on the state
  which the bundles registered before it left, and no later bundle overwrites them.
\<close>

theorem C8_bundle_ids:
  "(Detector_markers E (markerDetector s) \<noteq> [] \<and>
    (rht \<longrightarrow> texture_indices_in_range 0 (length (multiMarkers s)) s) \<longrightarrow>
      alvar_get_multi_marker_poses13 E ids pm er rht tex s =
        without_texture_index (in_registration_order (multi_marker_step13 E rht)
          (length (multiMarkers s)) (s, ids, pm, er, tex, 0)) \<and>
      (textures_ready rht s \<longrightarrow>
         (\<exists>r. alvar_get_multi_marker_poses13 E ids pm er rht tex s = Some (Inr r))) \<and>
      (\<forall>s' ids' pm' er' tex'.
         alvar_get_multi_marker_poses13 E ids pm er rht tex s = Some (Inr (s', ids', pm', er', tex')) \<longrightarrow>
         length (multiMarkers s') = length (multiMarkers s) \<and>
         (\<forall>i. ids' i = (if i < length (multiMarkers s) then int i else ids i)) \<and>
         (\<not> detect_additional s \<longrightarrow>
            (\<forall>i < length (multiMarkers s).
               (let u = MultiMarker_Update E (Detector_markers E (markerDetector s)) (cam s)
                          (Pose_new E) (multiMarkers s ! i)
                in er' i = fst u \<and> multiMarkers s' ! i = snd (snd u) \<and>
                   (\<forall>j < 16. pm' (i * 16 + j) = Pose_GetMatrixGL E (fst (snd u)) j)))) \<and>
         (\<forall>i < length (multiMarkers s).
            \<exists>s0 ids0 pm0 er0 tex0 ti0.
              in_registration_order (multi_marker_step13 E rht) i (s, ids, pm, er, tex, 0) =
                Some (Inr (s0, ids0, pm0, er0, tex0, ti0)) \<and>
              er' i = fst (snd (bundle_update13 E i s0 er0)) i \<and>
              multiMarkers s' ! i = multiMarkers (fst (bundle_update13 E i s0 er0)) ! i \<and>
              (\<forall>j < 16. pm' (i * 16 + j) =
                 Pose_GetMatrixGL E (snd (snd (bundle_update13 E i s0 er0))) j)))) \<and>
   (Detector_markers E (active_detector s15) \<noteq> [] \<and>
    (rht \<longrightarrow> texture_indices_in_range 0 (length (multiMarkers s15)) s15) \<longrightarrow>
      alvar_get_multi_marker_poses15 E ids pm er rht tex s15 =
        without_texture_index (in_registration_order (multi_marker_step15 E rht)
          (length (multiMarkers s15)) (s15, ids, pm, er, tex, 0)) \<and>
      (textures_ready rht s15 \<longrightarrow>
         (\<exists>r. alvar_get_multi_marker_poses15 E ids pm er rht tex s15 = Some (Inr r))) \<and>
      (\<forall>s' ids' pm' er' tex'.
         alvar_get_multi_marker_poses15 E ids pm er rht tex s15 = Some (Inr (s', ids', pm', er', tex')) \<longrightarrow>
         length (multiMarkers s') = length (multiMarkers s15) \<and>
         (\<forall>i. ids' i = (if i < length (multiMarkers s15) then int i else ids i)) \<and>
         (\<not> detect_additional s15 \<longrightarrow>
            (\<forall>i < length (multiMarkers s15).
               (let u = MultiMarker_Update E (Detector_markers E (active_detector s15)) (cam s15)
                          (Pose_new E) (multiMarkers s15 ! i)
                in er' i = fst u \<and> multiMarkers s' ! i = snd (snd u) \<and>
                   (\<forall>j < 16. pm' (i * 16 + j) = Pose_GetMatrixGL E (fst (snd u)) j)))) \<and>
         (\<forall>i < length (multiMarkers s15).
            \<exists>s0 ids0 pm0 er0 tex0 ti0.
              in_registration_order (multi_marker_step15 E rht) i (s15, ids, pm, er, tex, 0) =
                Some (Inr (s0, ids0, pm0, er0, tex0, ti0)) \<and>
              er' i = fst (snd (bundle_update15 E i s0 er0)) i \<and>
              multiMarkers s' ! i = multiMarkers (fst (bundle_update15 E i s0 er0)) ! i \<and>
              (\<forall>j < 16. pm' (i * 16 + j) =
                 Pose_GetMatrixGL E (snd (snd (bundle_update15 E i s0 er0))) j))))"
proof (intro conjI impI allI; (elim conjE)?)
  assume m: "Detector_markers E (markerDetector s) \<noteq> []"
  show "alvar_get_multi_marker_poses13 E ids pm er rht tex s =
        without_texture_index (in_registration_order (multi_marker_step13 E rht)
          (length (multiMarkers s)) (s, ids, pm, er, tex, 0))"
    by (rule bundle_poses13(1) [OF m])
next
  assume m: "Detector_markers E (markerDetector s) \<noteq> []" and r: "textures_ready rht s"
  show "\<exists>r. alvar_get_multi_marker_poses13 E ids pm er rht tex s = Some (Inr r)"
    by (rule bundle_poses13(2) [OF m r])
next
  fix s' ids' pm' er' tex'
  assume m: "Detector_markers E (markerDetector s) \<noteq> []"
    and r: "alvar_get_multi_marker_poses13 E ids pm er rht tex s = Some (Inr (s', ids', pm', er', tex'))"
  note h = bundle_poses13(3) [OF m r]
  show "length (multiMarkers s') = length (multiMarkers s)" using h by blast
  show "\<And>i. ids' i = (if i < length (multiMarkers s) then int i else ids i)" using h by blast
  show "\<And>i. \<not> detect_additional s \<Longrightarrow> i < length (multiMarkers s) \<Longrightarrow>
      (let u = MultiMarker_Update E (Detector_markers E (markerDetector s)) (cam s)
                          (Pose_new E) (multiMarkers s ! i)
                in er' i = fst u \<and> multiMarkers s' ! i = snd (snd u) \<and>
                   (\<forall>j < 16. pm' (i * 16 + j) = Pose_GetMatrixGL E (fst (snd u)) j))" using h by blast
  show "\<And>i. i < length (multiMarkers s) \<Longrightarrow>
      \<exists>s0 ids0 pm0 er0 tex0 ti0.
              in_registration_order (multi_marker_step13 E rht) i (s, ids, pm, er, tex, 0) =
                Some (Inr (s0, ids0, pm0, er0, tex0, ti0)) \<and>
              er' i = fst (snd (bundle_update13 E i s0 er0)) i \<and>
              multiMarkers s' ! i = multiMarkers (fst (bundle_update13 E i s0 er0)) ! i \<and>
              (\<forall>j < 16. pm' (i * 16 + j) =
                 Pose_GetMatrixGL E (snd (snd (bundle_update13 E i s0 er0))) j)" using h by blast
next
  assume m: "Detector_markers E (active_detector s15) \<noteq> []"
  show "alvar_get_multi_marker_poses15 E ids pm er rht tex s15 =
        without_texture_index (in_registration_order (multi_marker_step15 E rht)
          (length (multiMarkers s15)) (s15, ids, pm, er, tex, 0))"
    by (rule bundle_poses15(1) [OF m])
next
  assume m: "Detector_markers E (active_detector s15) \<noteq> []" and r: "textures_ready rht s15"
  show "\<exists>r. alvar_get_multi_marker_poses15 E ids pm er rht tex s15 = Some (Inr r)"
    by (rule bundle_poses15(2) [OF m r])
next
  fix s' ids' pm' er' tex'
  assume m: "Detector_markers E (active_detector s15) \<noteq> []"
    and r: "alvar_get_multi_marker_poses15 E ids pm er rht tex s15 = Some (Inr (s', ids', pm', er', tex'))"
  note h = bundle_poses15(3) [OF m r]
  show "length (multiMarkers s') = length (multiMarkers s15)" using h by blast
  show "\<And>i. ids' i = (if i < length (multiMarkers s15) then int i else ids i)" using h by blast
  show "\<And>i. \<not> detect_additional s15 \<Longrightarrow> i < length (multiMarkers s15) \<Longrightarrow>
      (let u = MultiMarker_Update E (Detector_markers E (active_detector s15)) (cam s15)
                          (Pose_new E) (multiMarkers s15 ! i)
                in er' i = fst u \<and> multiMarkers s' ! i = snd (snd u) \<and>
                   (\<forall>j < 16. pm' (i * 16 + j) = Pose_GetMatrixGL E (fst (snd u)) j))" using h by blast
  show "\<And>i. i < length (multiMarkers s15) \<Longrightarrow>
      \<exists>s0 ids0 pm0 er0 tex0 ti0.
              in_registration_order (multi_marker_step15 E rht) i (s15, ids, pm, er, tex, 0) =
                Some (Inr (s0, ids0, pm0, er0, tex0, ti0)) \<and>
              er' i = fst (snd (bundle_update15 E i s0 er0)) i \<and>
              multiMarkers s' ! i = multiMarkers (fst (bundle_update15 E i s0 er0)) ! i \<and>
              (\<forall>j < 16. pm' (i * 16 + j) =
                 Pose_GetMatrixGL E (snd (snd (bundle_update15 E i s0 er0))) j)" using h by blast
qed

text \<open>
  The bundle of the markers 7 and 9, registered first, reports id 0 and one missing
  member; the bundle of the marker 3 reports id 1. With hide textures requested, the
  one bundle of the textured sessions reports id 0.
\<close>

theorem C8_bundle_ids_witness:
  "(Detector_markers demo_engine (markerDetector demo_two_bundles13) \<noteq> [] \<and>
   Detector_markers demo_engine (active_detector demo_two_bundles15) \<noteq> [] \<and>
   textures_ready False demo_two_bundles13 \<and> textures_ready False demo_two_bundles15 \<and>
   \<not> detect_additional demo_two_bundles13 \<and> \<not> detect_additional demo_two_bundles15 \<and>
   map fst (multiMarkers demo_two_bundles13) = [ [7, 9], [3] ] \<and>
   map fst (multiMarkers demo_two_bundles15) = [ [7, 9], [3] ] \<and>
   (\<exists>s' ids' pm' er' tex'.
      alvar_get_multi_marker_poses13 demo_engine demo_ids demo_doubles demo_doubles False demo_bytes
        demo_two_bundles13 = Some (Inr (s', ids', pm', er', tex')) \<and>
      map ids' [0, 1, 2] = [0, 1, 9] \<and> map er' [0, 1] = [1, 0] \<and> map pm' [0, 16] = [1, 1]) \<and>
   (\<exists>s' ids' pm' er' tex'.
      alvar_get_multi_marker_poses15 demo_engine demo_ids demo_doubles demo_doubles False demo_bytes
        demo_two_bundles15 = Some (Inr (s', ids', pm', er', tex')) \<and>
      map ids' [0, 1, 2] = [0, 1, 9] \<and> map er' [0, 1] = [1, 0] \<and> map pm' [0, 16] = [1, 1])) \<and>
   (texture_indices_in_range 0 (length (multiMarkers demo_textured13)) demo_textured13 \<and>
   texture_indices_in_range 0 (length (multiMarkers demo_textured15)) demo_textured15 \<and>
   textures_ready True demo_textured13 \<and> textures_ready True demo_textured15 \<and>
   (\<exists>s' ids' pm' er' tex'.
      alvar_get_multi_marker_poses13 demo_engine demo_ids demo_doubles demo_doubles True demo_bytes
        demo_textured13 = Some (Inr (s', ids', pm', er', tex')) \<and> map ids' [0, 1] = [0, 9]) \<and>
   (\<exists>s' ids' pm' er' tex'.
      alvar_get_multi_marker_poses15 demo_engine demo_ids demo_doubles demo_doubles True demo_bytes
        demo_textured15 = Some (Inr (s', ids', pm', er', tex')) \<and> map ids' [0, 1] = [0, 9]))"
proof (rule conjI)
  show "Detector_markers demo_engine (markerDetector demo_two_bundles13) \<noteq> [] \<and>
   Detector_markers demo_engine (active_detector demo_two_bundles15) \<noteq> [] \<and>
   textures_ready False demo_two_bundles13 \<and> textures_ready False demo_two_bundles15 \<and>
   \<not> detect_additional demo_two_bundles13 \<and> \<not> detect_additional demo_two_bundles15 \<and>
   map fst (multiMarkers demo_two_bundles13) = [ [7, 9], [3] ] \<and>
   map fst (multiMarkers demo_two_bundles15) = [ [7, 9], [3] ] \<and>
   (\<exists>s' ids' pm' er' tex'.
      alvar_get_multi_marker_poses13 demo_engine demo_ids demo_doubles demo_doubles False demo_bytes
        demo_two_bundles13 = Some (Inr (s', ids', pm', er', tex')) \<and>
      map ids' [0, 1, 2] = [0, 1, 9] \<and> map er' [0, 1] = [1, 0] \<and> map pm' [0, 16] = [1, 1]) \<and>
   (\<exists>s' ids' pm' er' tex'.
      alvar_get_multi_marker_poses15 demo_engine demo_ids demo_doubles demo_doubles False demo_bytes
        demo_two_bundles15 = Some (Inr (s', ids', pm', er', tex')) \<and>
      map ids' [0, 1, 2] = [0, 1, 9] \<and> map er' [0, 1] = [1, 0] \<and> map pm' [0, 16] = [1, 1])"
  proof -
    have m13: "Detector_markers demo_engine (markerDetector demo_two_bundles13) = [3, 7]"
      by (simp add: demo_two_bundles13_def demo_run_simps)
    have m15: "Detector_markers demo_engine (active_detector demo_two_bundles15) = [3, 7]"
      by (simp add: demo_two_bundles15_def demo_run_simps)
    have r13: "textures_ready False demo_two_bundles13" and r15: "textures_ready False demo_two_bundles15"
      by (simp_all add: textures_ready_def)
    have a13: "\<not> detect_additional demo_two_bundles13"
      by (simp add: demo_two_bundles13_def demo_run_simps)
    have a15: "\<not> detect_additional demo_two_bundles15"
      by (simp add: demo_two_bundles15_def demo_run_simps)
    have b13: "multiMarkers demo_two_bundles13 = [([7, 9], True), ([3], True)]"
      by (simp add: demo_two_bundles13_def demo_run_simps)
    have b15: "multiMarkers demo_two_bundles15 = [([7, 9], True), ([3], True)]"
      by (simp add: demo_two_bundles15_def demo_run_simps)
    have u: "MultiMarker_Update demo_engine = (\<lambda>ms c p m.
           (real (length (filter (\<lambda>i. i \<notin> set ms) (fst m))),
            length (filter (\<lambda>i. i \<in> set ms) (fst m)), m))"
      "Pose_GetMatrixGL demo_engine = (\<lambda>p k. real p)"
      by (simp_all add: demo_engine_def)
    note inst = C8_bundle_ids [where E = demo_engine and s = demo_two_bundles13
        and ?s15.0 = demo_two_bundles15 and rht = False and ids = demo_ids and pm = demo_doubles
        and er = demo_doubles and tex = demo_bytes]
    have na: "Detector_markers demo_engine (markerDetector demo_two_bundles13) \<noteq> [] \<and>
        (False \<longrightarrow> texture_indices_in_range 0 (length (multiMarkers demo_two_bundles13)) demo_two_bundles13)"
      by (simp add: m13)
    note ha = inst [THEN conjunct1, THEN mp, OF na]
    from ha [THEN conjunct2, THEN conjunct1, THEN mp, OF r13]
    obtain resa where run0a: "alvar_get_multi_marker_poses13 demo_engine demo_ids demo_doubles demo_doubles False demo_bytes
          demo_two_bundles13 = Some (Inr resa)" ..
    obtain sa idsa pma era texa where
      "resa = (sa, idsa, pma, era, texa)"
      by (cases resa rule: prod_cases5)
    with run0a have
      runa: "alvar_get_multi_marker_poses13 demo_engine demo_ids demo_doubles demo_doubles False demo_bytes
          demo_two_bundles13 = Some (Inr (sa, idsa, pma, era, texa))"
      by simp
    note ka = ha [THEN conjunct2, THEN conjunct2, rule_format, OF runa]
    from ka [THEN conjunct2, THEN conjunct1]
    have ia: "idsa 0 = 0 \<and> idsa 1 = 1 \<and> idsa 2 = 9"
      by (simp add: b13 demo_ids_def)
    note pa = ka [THEN conjunct2, THEN conjunct2, THEN conjunct1, THEN mp, OF a13, rule_format]
    have za: "0 < length (multiMarkers demo_two_bundles13)" "1 < length (multiMarkers demo_two_bundles13)"
      by (simp_all add: b13)
    note q0a = pa [OF za(1), unfolded Let_def]
    from q0a [THEN conjunct1] q0a [THEN conjunct2, THEN conjunct2, rule_format, of 0]
    have e0a: "era 0 = 1 \<and> pma 0 = 1"
      by (simp add: u Let_def b13 m13)
    note q1a = pa [OF za(2), unfolded Let_def]
    from q1a [THEN conjunct1] q1a [THEN conjunct2, THEN conjunct2, rule_format, of 0]
    have e1a: "era 1 = 0 \<and> pma 16 = 1"
      by (simp add: u Let_def b13 m13)
    from runa ia e0a e1a have wa: "\<exists>s' ids' pm' er' tex'.
        alvar_get_multi_marker_poses13 demo_engine demo_ids demo_doubles demo_doubles False demo_bytes
          demo_two_bundles13 = Some (Inr (s', ids', pm', er', tex')) \<and>
        map ids' [0, 1, 2] = [0, 1, 9] \<and> map er' [0, 1] = [1, 0] \<and> map pm' [0, 16] = [1, 1]"
      by (intro exI [of _ sa] exI [of _ idsa] exI [of _ pma] exI [of _ era] exI [of _ texa]) simp
    have nb: "Detector_markers demo_engine (active_detector demo_two_bundles15) \<noteq> [] \<and>
        (False \<longrightarrow> texture_indices_in_range 0 (length (multiMarkers demo_two_bundles15)) demo_two_bundles15)"
      by (simp add: m15)
    note hb = inst [THEN conjunct2, THEN mp, OF nb]
    from hb [THEN conjunct2, THEN conjunct1, THEN mp, OF r15]
    obtain resb where run0b: "alvar_get_multi_marker_poses15 demo_engine demo_ids demo_doubles demo_doubles False demo_bytes
          demo_two_bundles15 = Some (Inr resb)" ..
    obtain sb idsb pmb erb texb where
      "resb = (sb, idsb, pmb, erb, texb)"
      by (cases resb rule: prod_cases5)
    with run0b have
      runb: "alvar_get_multi_marker_poses15 demo_engine demo_ids demo_doubles demo_doubles False demo_bytes
          demo_two_bundles15 = Some (Inr (sb, idsb, pmb, erb, texb))"
      by simp
    note kb = hb [THEN conjunct2, THEN conjunct2, rule_format, OF runb]
    from kb [THEN conjunct2, THEN conjunct1]
    have ib: "idsb 0 = 0 \<and> idsb 1 = 1 \<and> idsb 2 = 9"
      by (simp add: b15 demo_ids_def)
    note pb = kb [THEN conjunct2, THEN conjunct2, THEN conjunct1, THEN mp, OF a15, rule_format]
    have zb: "0 < length (multiMarkers demo_two_bundles15)" "1 < length (multiMarkers demo_two_bundles15)"
      by (simp_all add: b15)
    note q0b = pb [OF zb(1), unfolded Let_def]
    from q0b [THEN conjunct1] q0b [THEN conjunct2, THEN conjunct2, rule_format, of 0]
    have e0b: "erb 0 = 1 \<and> pmb 0 = 1"
      by (simp add: u Let_def b15 m15)
    note q1b = pb [OF zb(2), unfolded Let_def]
    from q1b [THEN conjunct1] q1b [THEN conjunct2, THEN conjunct2, rule_format, of 0]
    have e1b: "erb 1 = 0 \<and> pmb 16 = 1"
      by (simp add: u Let_def b15 m15)
    from runb ib e0b e1b have wb: "\<exists>s' ids' pm' er' tex'.
        alvar_get_multi_marker_poses15 demo_engine demo_ids demo_doubles demo_doubles False demo_bytes
          demo_two_bundles15 = Some (Inr (s', ids', pm', er', tex')) \<and>
        map ids' [0, 1, 2] = [0, 1, 9] \<and> map er' [0, 1] = [1, 0] \<and> map pm' [0, 16] = [1, 1]"
      by (intro exI [of _ sb] exI [of _ idsb] exI [of _ pmb] exI [of _ erb] exI [of _ texb]) simp
    from m13 m15 r13 r15 a13 a15 wa wb show ?thesis by (simp add: b13 b15)
  qed
  show "texture_indices_in_range 0 (length (multiMarkers demo_textured13)) demo_textured13 \<and>
   texture_indices_in_range 0 (length (multiMarkers demo_textured15)) demo_textured15 \<and>
   textures_ready True demo_textured13 \<and> textures_ready True demo_textured15 \<and>
   (\<exists>s' ids' pm' er' tex'.
      alvar_get_multi_marker_poses13 demo_engine demo_ids demo_doubles demo_doubles True demo_bytes
        demo_textured13 = Some (Inr (s', ids', pm', er', tex')) \<and> map ids' [0, 1] = [0, 9]) \<and>
   (\<exists>s' ids' pm' er' tex'.
      alvar_get_multi_marker_poses15 demo_engine demo_ids demo_doubles demo_doubles True demo_bytes
        demo_textured15 = Some (Inr (s', ids', pm', er', tex')) \<and> map ids' [0, 1] = [0, 9])"
  proof -
    have t13: "hide_texture demo_textured13 = Some blank_image"
      and c13: "channels demo_textured13 = 4" and h13: "hide_texture_size demo_textured13 = 4"
      and m13: "multiMarkers demo_textured13 = [([1], True)]"
      and k13: "Detector_markers demo_engine (markerDetector demo_textured13) = [1]"
      by (simp_all add: demo_textured13_def demo_run_simps)
    have t15: "hide_texture demo_textured15 = Some blank_image"
      and c15: "channels demo_textured15 = 4" and h15: "hide_texture_size demo_textured15 = 4"
      and m15: "multiMarkers demo_textured15 = [([1], True)]"
      and k15: "Detector_markers demo_engine (active_detector demo_textured15) = [1]"
      by (simp_all add: demo_textured15_def demo_run_simps)
    have g13: "texture_indices_in_range 0 (length (multiMarkers demo_textured13)) demo_textured13"
      and g15: "texture_indices_in_range 0 (length (multiMarkers demo_textured15)) demo_textured15"
      by (simp_all add: texture_indices_in_range_def c13 h13 m13 c15 h15 m15)
    have y13: "textures_ready True demo_textured13" and y15: "textures_ready True demo_textured15"
      by (simp_all add: textures_ready_def t13 c13 t15 c15)
    note tinst = C8_bundle_ids [where E = demo_engine and s = demo_textured13
        and ?s15.0 = demo_textured15 and rht = True and ids = demo_ids and pm = demo_doubles
        and er = demo_doubles and tex = demo_bytes]
    have nc: "Detector_markers demo_engine (markerDetector demo_textured13) \<noteq> [] \<and>
        (True \<longrightarrow> texture_indices_in_range 0 (length (multiMarkers demo_textured13)) demo_textured13)"
      by (simp add: k13 g13)
    note hc = tinst [THEN conjunct1, THEN mp, OF nc]
    from hc [THEN conjunct2, THEN conjunct1, THEN mp, OF y13]
    obtain resc where run0c: "alvar_get_multi_marker_poses13 demo_engine demo_ids demo_doubles
        demo_doubles True demo_bytes demo_textured13 = Some (Inr resc)" ..
    obtain sc idsc pmc erc texc where "resc = (sc, idsc, pmc, erc, texc)"
      by (cases resc rule: prod_cases5)
    with run0c have runc: "alvar_get_multi_marker_poses13 demo_engine demo_ids demo_doubles
        demo_doubles True demo_bytes demo_textured13 = Some (Inr (sc, idsc, pmc, erc, texc))"
      by simp
    from hc [THEN conjunct2, THEN conjunct2, rule_format, OF runc, THEN conjunct2, THEN conjunct1]
    have ic: "idsc 0 = 0 \<and> idsc 1 = 9"
      by (simp add: m13 demo_ids_def)
    with runc have wc: "\<exists>s' ids' pm' er' tex'.
        alvar_get_multi_marker_poses13 demo_engine demo_ids demo_doubles demo_doubles True demo_bytes
          demo_textured13 = Some (Inr (s', ids', pm', er', tex')) \<and> map ids' [0, 1] = [0, 9]"
      by (intro exI [of _ sc] exI [of _ idsc] exI [of _ pmc] exI [of _ erc] exI [of _ texc]) simp
    have nd: "Detector_markers demo_engine (active_detector demo_textured15) \<noteq> [] \<and>
        (True \<longrightarrow> texture_indices_in_range 0 (length (multiMarkers demo_textured15)) demo_textured15)"
      by (simp add: k15 g15)
    note hd = tinst [THEN conjunct2, THEN mp, OF nd]
    from hd [THEN conjunct2, THEN conjunct1, THEN mp, OF y15]
    obtain resd where run0d: "alvar_get_multi_marker_poses15 demo_engine demo_ids demo_doubles
        demo_doubles True demo_bytes demo_textured15 = Some (Inr resd)" ..
    obtain sd idsd pmd erd texd where "resd = (sd, idsd, pmd, erd, texd)"
      by (cases resd rule: prod_cases5)
    with run0d have rund: "alvar_get_multi_marker_poses15 demo_engine demo_ids demo_doubles
        demo_doubles True demo_bytes demo_textured15 = Some (Inr (sd, idsd, pmd, erd, texd))"
      by simp
    from hd [THEN conjunct2, THEN conjunct2, rule_format, OF rund, THEN conjunct2, THEN conjunct1]
    have idd: "idsd 0 = 0 \<and> idsd 1 = 9"
      by (simp add: m15 demo_ids_def)
    with rund have wd: "\<exists>s' ids' pm' er' tex'.
        alvar_get_multi_marker_poses15 demo_engine demo_ids demo_doubles demo_doubles True demo_bytes
          demo_textured15 = Some (Inr (s', ids', pm', er', tex')) \<and> map ids' [0, 1] = [0, 9]"
      by (intro exI [of _ sd] exI [of _ idsd] exI [of _ pmd] exI [of _ erd] exI [of _ texd]) simp
    from g13 g15 y13 y15 wc wd show ?thesis by (intro conjI)
  qed
qed

text \<open>
  Claim C8 as stated fails: with one bundle registered and no marker detected, the request
  reports no id, and the first slot of the id array keeps the caller's 9.
\<close>

theorem C8_no_id_without_detection:
  "length (multiMarkers demo_bundle_no_markers13) = 1 \<and>
   reported_ids (alvar_get_multi_marker_poses13 demo_engine demo_ids demo_doubles demo_doubles False
     demo_bytes demo_bundle_no_markers13) [0] = Some [9]"
  by (simp add: reported_ids_def alvar_get_multi_marker_poses13_def demo_bundle_no_markers13_def
      demo_run_simps demo_ids_def)

text \<open>
  Claim C9. In both versions, when markers were detected and ids were requested, the id
  table built by \<^verbatim>\<open>alvar_detect_marker\<close> maps every detected id to the index of its last
  occurrence in the detection result, and the resolved indices are the table's entries
  for the requested ids.
\<close>

theorem C9_last_occurrence:
  "(case alvar_detect_marker13 E nCh cModel chSeq data req mme mte s of
      (numFound, cnt, s') \<Rightarrow>
        Detector_markers E (markerDetector s') \<noteq> [] \<and> req \<noteq> [] \<longrightarrow>
        last_occurrence_table E (Detector_markers E (markerDetector s')) (idTable s') \<and>
        foundMarkers s' = map (\<lambda>r. the (idTable s' r)) (filter (\<lambda>r. idTable s' r \<noteq> None) req)) \<and>
   (case alvar_detect_marker15 E nCh cModel chSeq data req mme mte s15 of
      (numFound, cnt, s') \<Rightarrow>
        Detector_markers E (active_detector s') \<noteq> [] \<and> req \<noteq> [] \<longrightarrow>
        last_occurrence_table E (Detector_markers E (active_detector s')) (idTable s') \<and>
        foundMarkers s' = map (\<lambda>r. the (idTable s' r)) (filter (\<lambda>r. idTable s' r \<noteq> None) req))"
proof
  show "case alvar_detect_marker13 E nCh cModel chSeq data req mme mte s of
      (numFound, cnt, s') \<Rightarrow>
        Detector_markers E (markerDetector s') \<noteq> [] \<and> req \<noteq> [] \<longrightarrow>
        last_occurrence_table E (Detector_markers E (markerDetector s')) (idTable s') \<and>
        foundMarkers s' = map (\<lambda>r. the (idTable s' r)) (filter (\<lambda>r. idTable s' r \<noteq> None) req)"
    by (simp add: alvar_detect_marker13_def Let_def split_beta idTable_fill_last_occurrence
        interest_lookup_eq del: not_None_eq)
  show "case alvar_detect_marker15 E nCh cModel chSeq data req mme mte s15 of
      (numFound, cnt, s') \<Rightarrow>
        Detector_markers E (active_detector s') \<noteq> [] \<and> req \<noteq> [] \<longrightarrow>
        last_occurrence_table E (Detector_markers E (active_detector s')) (idTable s') \<and>
        foundMarkers s' = map (\<lambda>r. the (idTable s' r)) (filter (\<lambda>r. idTable s' r \<noteq> None) req)"
    by (simp add: alvar_detect_marker15_def active_detector_def Let_def split_beta
        idTable_fill_last_occurrence interest_lookup_eq del: not_None_eq)
qed

text \<open>The markers 5, 8, 5: a request for 5 resolves to index 2.\<close>

theorem C9_last_occurrence_witness:
  "Detector_markers demo_engine (markerDetector (snd (snd
      (alvar_detect_marker13 demo_engine 3 (c_str ''RGB'') (c_str ''RGB'') (frame_of [3, 5, 8, 5]) [5] 0.08 0.2
         demo_state13)))) = [5, 8, 5] \<and>
   foundMarkers (snd (snd
      (alvar_detect_marker13 demo_engine 3 (c_str ''RGB'') (c_str ''RGB'') (frame_of [3, 5, 8, 5]) [5] 0.08 0.2
         demo_state13))) = [2] \<and>
   last_occurrence_table demo_engine [5, 8, 5] (idTable (snd (snd
      (alvar_detect_marker13 demo_engine 3 (c_str ''RGB'') (c_str ''RGB'') (frame_of [3, 5, 8, 5]) [5] 0.08 0.2
         demo_state13))))"
proof -
  have m: "Detector_markers demo_engine (markerDetector (snd (snd
      (alvar_detect_marker13 demo_engine 3 (c_str ''RGB'') (c_str ''RGB'') (frame_of [3, 5, 8, 5]) [5] 0.08 0.2
         demo_state13)))) = [5, 8, 5]"
    by (simp add: alvar_detect_marker13_def demo_simps Let_def upt_rec)
  have f: "foundMarkers (snd (snd
      (alvar_detect_marker13 demo_engine 3 (c_str ''RGB'') (c_str ''RGB'') (frame_of [3, 5, 8, 5]) [5] 0.08 0.2
         demo_state13))) = [2]"
    by (simp add: alvar_detect_marker13_def demo_simps Let_def upt_rec)
  show ?thesis
    using m f C9_last_occurrence [where E = demo_engine and nCh = 3 and cModel = "c_str ''RGB''"
        and chSeq = "c_str ''RGB''" and data = "frame_of [3, 5, 8, 5]" and req = "[5]"
        and mme = "0.08" and mte = "0.2" and s = demo_state13 and ?s15.0 = demo_state15,
        THEN conjunct1]
    by (simp add: split_beta)
qed

text \<open>
  Claim C10. In both versions, when the detector in use holds no marker,
  \<^verbatim>\<open>alvar_get_multi_marker_poses\<close> returns with the four output arrays and every global
  (the bundles among them) as they were, whatever the flags.
\<close>

theorem C10_no_markers_no_effect:
  "(Detector_markers E (markerDetector s) = [] \<longrightarrow>
      alvar_get_multi_marker_poses13 E ids poseMats errors returnHideTextures hideTextures s =
        Some (Inr (s, ids, poseMats, errors, hideTextures))) \<and>
   (Detector_markers E (active_detector s15) = [] \<longrightarrow>
      alvar_get_multi_marker_poses15 E ids poseMats errors returnHideTextures hideTextures s15 =
        Some (Inr (s15, ids, poseMats, errors, hideTextures)))"
  by (simp add: alvar_get_multi_marker_poses13_def alvar_get_multi_marker_poses15_def)

theorem C10_no_markers_no_effect_witness:
  "Detector_markers demo_engine (markerDetector demo_bundle_no_markers13) = [] \<and>
   Detector_markers demo_engine (active_detector demo_bundle_no_markers15) = [] \<and>
   length (multiMarkers demo_bundle_no_markers15) = 1 \<and>
   detect_additional demo_bundle_no_markers15 \<and>
   alvar_get_multi_marker_poses13 demo_engine (\<lambda>k. 9) (\<lambda>k. 9) (\<lambda>k. 9) True (\<lambda>k. 9)
       demo_bundle_no_markers13 =
     Some (Inr (demo_bundle_no_markers13, \<lambda>k. 9, \<lambda>k. 9, \<lambda>k. 9, \<lambda>k. 9)) \<and>
   alvar_get_multi_marker_poses15 demo_engine (\<lambda>k. 9) (\<lambda>k. 9) (\<lambda>k. 9) True (\<lambda>k. 9)
       demo_bundle_no_markers15 =
     Some (Inr (demo_bundle_no_markers15, \<lambda>k. 9, \<lambda>k. 9, \<lambda>k. 9, \<lambda>k. 9))"
proof -
  have h13: "Detector_markers demo_engine (markerDetector demo_bundle_no_markers13) = []"
    by (simp add: demo_bundle_no_markers13_def alvar_set_detect_additional_def
        alvar_add_multi_marker_def alvar_init_camera13_def demo_simps Let_def)
  have h15: "Detector_markers demo_engine (active_detector demo_bundle_no_markers15) = []"
    by (simp add: demo_bundle_no_markers15_def alvar_set_detect_additional_def active_detector_def
        alvar_add_multi_marker_def alvar_init_camera15_def demo_simps Let_def)
  have b: "length (multiMarkers demo_bundle_no_markers15) = 1 \<and> detect_additional demo_bundle_no_markers15"
    by (simp add: demo_bundle_no_markers15_def alvar_set_detect_additional_def
        alvar_add_multi_marker_def alvar_init_camera15_def demo_simps Let_def)
  note t = C10_no_markers_no_effect [where E = demo_engine and s = demo_bundle_no_markers13
      and ?s15.0 = demo_bundle_no_markers15 and ids = "\<lambda>k. 9" and poseMats = "\<lambda>k. 9"
      and errors = "\<lambda>k. 9" and hideTextures = "\<lambda>k. 9" and returnHideTextures = True]
  from h13 h15 b t [THEN conjunct1, rule_format, OF h13] t [THEN conjunct2, rule_format, OF h15]
  show ?thesis by blast
qed

end
